theory Spec2Isabelle
  imports Complex_Main "HOL-Library.Sublist" "HOL-Library.Log_Nat"
begin

section \<open>Values of the JavaScript runtime\<close>

text \<open>
  Numbers are rationals, compared exactly, as the runtime compares doubles. The rule-based
  scores and the worked example are computed in exact arithmetic; the blending step is
  also given in double precision, each operation rounded as the runtime rounds it (see
  the next section). A value that may be \<^verbatim>\<open>undefined\<close> is an option. Strings are
  character lists; an object with string keys is an association list in insertion order,
  which is the order \<^verbatim>\<open>Object.keys\<close> enumerates (keys are not numerals).
\<close>

datatype error = Error string | TypeError string | AppError string nat

type_synonym scores = "(string \<times> rat) list"

definition toLowerChar :: "char \<Rightarrow> char" where
  "toLowerChar c =
     (let n = (of_char c :: nat) in if 65 \<le> n \<and> n \<le> 90 then char_of (n + 32) else c)"

definition toLowerCase :: "string \<Rightarrow> string" where
  "toLowerCase s = map toLowerChar s"

fun startsWith :: "string \<Rightarrow> string \<Rightarrow> bool" where
  "startsWith t [] = True"
| "startsWith [] (k # ks) = False"
| "startsWith (c # cs) (k # ks) = (c = k \<and> startsWith cs ks)"

text \<open>\<^verbatim>\<open>text.includes(keyword)\<close>: the keyword occurs as a contiguous substring.\<close>

fun str_includes :: "string \<Rightarrow> string \<Rightarrow> bool" where
  "str_includes [] kw = (kw = [])"
| "str_includes (c # cs) kw = (startsWith (c # cs) kw \<or> str_includes cs kw)"

text \<open>Truthiness of a possibly undefined number: \<^verbatim>\<open>undefined\<close> and \<^verbatim>\<open>0\<close> are falsy.\<close>

definition truthy :: "rat option \<Rightarrow> bool" where
  "truthy v = (case v of None \<Rightarrow> False | Some x \<Rightarrow> x \<noteq> 0)"

text \<open>\<^verbatim>\<open>a > b\<close> on possibly undefined numbers: a comparison with \<^verbatim>\<open>undefined\<close> is false.\<close>

fun jsGt :: "rat option \<Rightarrow> rat option \<Rightarrow> bool" where
  "jsGt (Some a) (Some b) = (a > b)"
| "jsGt _ _ = False"

text \<open>\<^verbatim>\<open>a || b\<close> on possibly undefined numbers.\<close>

definition jsOr :: "rat option \<Rightarrow> rat option \<Rightarrow> rat option" where
  "jsOr a b = (if truthy a then a else b)"

text \<open>\<^verbatim>\<open>obj[k] = v\<close>: an existing key keeps its position, a new key goes last.\<close>

fun objSet :: "scores \<Rightarrow> string \<Rightarrow> rat \<Rightarrow> scores" where
  "objSet [] k v = [(k, v)]"
| "objSet ((k', v') # kvs) k v = (if k' = k then (k, v) # kvs else (k', v') # objSet kvs k v)"

text \<open>
  \<^verbatim>\<open>keys.reduce((a, b) => obj[a] > obj[b] ? a : b)\<close> with no initial value: the first
  key starts as the accumulator, and an empty array raises a TypeError.
\<close>

fun reduceFrom :: "scores \<Rightarrow> string \<Rightarrow> string list \<Rightarrow> string" where
  "reduceFrom obj a [] = a"
| "reduceFrom obj a (b # bs) =
     reduceFrom obj (if jsGt (map_of obj a) (map_of obj b) then a else b) bs"

definition reduceBest :: "scores \<Rightarrow> error + string" where
  "reduceBest obj =
     (case map fst obj of
        [] \<Rightarrow> Inl (TypeError ''Reduce of empty array with no initial value'')
      | k # ks \<Rightarrow> Inr (reduceFrom obj k ks))"

section \<open>Double-precision arithmetic\<close>

text \<open>
  A finite double is a rational \<open>m * 2 ^ e\<close> with an integer \<open>m\<close> of at most 53 bits. The
  runtime rounds the exact result of an operation to the nearest double, a tie going to
  the even \<open>m\<close>. The exponent is not bounded here: overflow to \<^verbatim>\<open>Infinity\<close> and
  underflow do not occur at the magnitudes of scores, and \<^verbatim>\<open>NaN\<close> is not a value.
\<close>

text \<open>Rounding to the nearest integer, a tie to the even one.\<close>

definition roundTiesToEven :: "rat \<Rightarrow> int" where
  "roundTiesToEven x =
     (let n = \<lfloor>x\<rfloor>; r = x - of_int n in
      if r < 1 / 2 then n else if 1 / 2 < r then n + 1 else if even n then n else n + 1)"

text \<open>
  The exponent of the last bit of a positive \<open>x\<close>: the \<open>e\<close> with
  \<open>2 ^ 52 \<le> x / 2 ^ e < 2 ^ 53\<close>. For \<open>x = p / q\<close> the binary logarithm of \<open>x\<close> lies
  between \<open>d - 1\<close> and \<open>d + 1\<close>, where \<open>d\<close> is the difference of the bit lengths.
\<close>

definition ulpExponent :: "rat \<Rightarrow> int" where
  "ulpExponent x =
     (case quotient_of x of (p, q) \<Rightarrow>
        (let d = bitlen p - bitlen q in if 2 powi d \<le> x then d - 52 else d - 53))"

definition roundDouble :: "rat \<Rightarrow> rat" where
  "roundDouble x =
     (if x = 0 then 0
      else (let e = ulpExponent \<bar>x\<bar> in
            sgn x * of_int (roundTiesToEven (\<bar>x\<bar> / 2 powi e)) * 2 powi e))"

text \<open>\<^verbatim>\<open>a + b\<close>, \<^verbatim>\<open>a * b\<close> and \<^verbatim>\<open>a / b\<close> on doubles; a decimal literal is the double nearest to it.\<close>

definition fadd :: "rat \<Rightarrow> rat \<Rightarrow> rat" where
  "fadd a b = roundDouble (a + b)"

definition fmul :: "rat \<Rightarrow> rat \<Rightarrow> rat" where
  "fmul a b = roundDouble (a * b)"

definition fdiv :: "rat \<Rightarrow> rat \<Rightarrow> rat" where
  "fdiv a b = roundDouble (a / b)"

section \<open>Categorizer (services/ml.js)\<close>

definition categoryRules :: "(string \<times> string list) list" where
  "categoryRules =
    [(''meals'',
        [''restaurant'', ''food'', ''lunch'', ''dinner'', ''breakfast'', ''cafe'', ''coffee'',
         ''pizza'', ''burger'', ''sushi'', ''delivery'', ''takeout'', ''meal'', ''dining'']),
     (''transportation'',
        [''uber'', ''lyft'', ''taxi'', ''bus'', ''train'', ''subway'', ''metro'', ''airline'',
         ''flight'', ''car rental'', ''parking'', ''toll'', ''gas'', ''fuel'', ''mileage'']),
     (''accommodation'',
        [''hotel'', ''motel'', ''inn'', ''resort'', ''airbnb'', ''booking'', ''lodging'',
         ''accommodation'', ''stay'', ''room'', ''suite'']),
     (''office_supplies'',
        [''staples'', ''office'', ''supplies'', ''paper'', ''pen'', ''pencil'', ''notebook'',
         ''folder'', ''binder'', ''printer'', ''ink'', ''toner'', ''desk'', ''chair'']),
     (''software'',
        [''software'', ''app'', ''subscription'', ''license'', ''saas'', ''cloud'', ''microsoft'',
         ''adobe'', ''google'', ''zoom'', ''slack'', ''github'', ''aws'', ''digital'']),
     (''training'',
        [''course'', ''training'', ''workshop'', ''seminar'', ''conference'', ''education'',
         ''learning'', ''certification'', ''udemy'', ''coursera'', ''book'', ''tutorial'']),
     (''marketing'',
        [''advertising'', ''marketing'', ''promotion'', ''social media'', ''facebook'',
         ''google ads'', ''linkedin'', ''campaign'', ''branding'', ''design'']),
     (''travel'',
        [''travel'', ''trip'', ''business trip'', ''visa'', ''passport'', ''insurance'',
         ''luggage'', ''baggage'', ''airport'', ''terminal''])]"

text \<open>
  The fields of an expense the categorizer reads. \<^verbatim>\<open>undefined\<close> text fields default to the
  empty string, an undefined or zero amount to \<^verbatim>\<open>0\<close>.
\<close>

record expenseData =
  ed_title :: "string option"
  ed_description :: "string option"
  ed_vendor :: "string option"
  ed_amount :: "rat option"

text \<open>The result of step 1 (remote classifier) or step 2 (rules).\<close>

record mlResult =
  category :: string
  confidence :: "rat option"
  meth :: string
  scores :: scores

definition orEmpty :: "string option \<Rightarrow> string" where
  "orEmpty s = (case s of None \<Rightarrow> [] | Some t \<Rightarrow> t)"

definition ruleText :: "expenseData \<Rightarrow> string" where
  "ruleText expenseData =
     toLowerCase (orEmpty (ed_title expenseData) @ '' '' @ orEmpty (ed_description expenseData)
                  @ '' '' @ orEmpty (ed_vendor expenseData))"

definition keywordHits :: "string \<Rightarrow> string list \<Rightarrow> nat" where
  "keywordHits text keywords =
     foldl (\<lambda>score keyword. if str_includes text keyword then score + 1 else score) 0 keywords"

definition ruleScore :: "string \<Rightarrow> string list \<Rightarrow> rat" where
  "ruleScore text keywords = of_nat (keywordHits text keywords) / of_nat (length keywords)"

definition ruleScores :: "string \<Rightarrow> scores" where
  "ruleScores text = map (\<lambda>(category, keywords). (category, ruleScore text keywords)) categoryRules"

definition categorizeByRules :: "expenseData \<Rightarrow> error + mlResult" where
  "categorizeByRules expenseData =
     (let scs = ruleScores (ruleText expenseData) in
      case reduceBest scs of
        Inl e \<Rightarrow> Inl e
      | Inr bestCategory \<Rightarrow>
          (let conf = map_of scs bestCategory in
           Inr \<lparr> category = (if jsGt conf (Some 0) then bestCategory else ''other''),
                 confidence = conf,
                 meth = ''rule-based'',
                 scores = scs \<rparr>))"

definition categorizeByAmount :: "rat \<Rightarrow> scores" where
  "categorizeByAmount amount =
     (if amount < 20 then [(''meals'', 3 / 10), (''office_supplies'', 2 / 10)]
      else if amount < 100 then
        [(''meals'', 4 / 10), (''transportation'', 3 / 10), (''office_supplies'', 1 / 10)]
      else if amount < 500 then
        [(''accommodation'', 3 / 10), (''software'', 2 / 10), (''training'', 2 / 10)]
      else [(''travel'', 4 / 10), (''accommodation'', 3 / 10), (''training'', 2 / 10)])"

text \<open>
  One round of the blending loop, for one hinted category. The keys of the hints are
  distinct, so a round takes the key with its hint.
\<close>

definition combineStep :: "scores \<Rightarrow> string \<times> rat \<Rightarrow> scores" where
  "combineStep combinedScores hint =
     (case hint of (cat, h) \<Rightarrow>
        (if truthy (map_of combinedScores cat)
         then (case map_of combinedScores cat of
                 Some s \<Rightarrow> objSet combinedScores cat ((s + h) / 2)
               | None \<Rightarrow> objSet combinedScores cat (h * (1 / 2)))
         else objSet combinedScores cat (h * (1 / 2))))"

definition combineScores :: "scores \<Rightarrow> scores \<Rightarrow> scores" where
  "combineScores mlScores amountHints = foldl combineStep mlScores amountHints"

text \<open>The decision of a classification run, before it is stored.\<close>

record outcome =
  finalCategory :: string
  finalConfidence :: "rat option"
  outMethod :: string
  combinedScores :: scores

definition blend :: "mlResult \<Rightarrow> rat \<Rightarrow> error + outcome" where
  "blend mlRes amount =
     (let combined = combineScores (scores mlRes) (categorizeByAmount amount) in
      case reduceBest combined of
        Inl e \<Rightarrow> Inl e
      | Inr bestCategory \<Rightarrow>
          (let conf = jsOr (map_of combined bestCategory) (confidence mlRes) in
           Inr \<lparr> finalCategory =
                   (if jsGt conf (Some (3 / 10)) then bestCategory else category mlRes),
                 finalConfidence = conf,
                 outMethod = meth mlRes,
                 combinedScores = combined \<rparr>))"

definition amountOrZero :: "rat option \<Rightarrow> rat" where
  "amountOrZero a = (case a of None \<Rightarrow> 0 | Some x \<Rightarrow> x)"

text \<open>
  Steps 1 to 4 of \<^verbatim>\<open>categorizeMachine\<close>: the answer of the remote classifier is an input
  (\<open>None\<close> when the call failed or timed out), and the rules are the fallback.
\<close>

definition classify :: "mlResult option \<Rightarrow> expenseData \<Rightarrow> error + outcome" where
  "classify remote expenseData =
     (case (case remote of Some r \<Rightarrow> Inr r | None \<Rightarrow> categorizeByRules expenseData) of
        Inl e \<Rightarrow> Inl e
      | Inr mlRes \<Rightarrow> blend mlRes (amountOrZero (ed_amount expenseData)))"

text \<open>
  The hints and the blending step in double precision. Every number a run works with is
  a double: the amount and the scores and confidence of the step-1/2 result are read as
  the doubles nearest to them (a decimal of the remote answer is parsed so, and the
  quotient of a rule score is rounded so), the literals are the doubles nearest to them,
  and the sum, the division by 2 and the product with \<^verbatim>\<open>0.5\<close> are rounded.
  \<open>categorizeByAmount\<close>, \<open>combineStep\<close>, \<open>combineScores\<close>, \<open>blend\<close> and \<open>classify\<close> above are
  the same code in exact arithmetic.
\<close>

definition asDoubles :: "scores \<Rightarrow> scores" where
  "asDoubles obj = map (\<lambda>(k, v). (k, roundDouble v)) obj"

definition categorizeByAmount_f64 :: "rat \<Rightarrow> scores" where
  "categorizeByAmount_f64 amount =
     (let a = roundDouble amount in
      if a < 20 then
        [(''meals'', roundDouble (3 / 10)), (''office_supplies'', roundDouble (2 / 10))]
      else if a < 100 then
        [(''meals'', roundDouble (4 / 10)), (''transportation'', roundDouble (3 / 10)),
         (''office_supplies'', roundDouble (1 / 10))]
      else if a < 500 then
        [(''accommodation'', roundDouble (3 / 10)), (''software'', roundDouble (2 / 10)),
         (''training'', roundDouble (2 / 10))]
      else [(''travel'', roundDouble (4 / 10)), (''accommodation'', roundDouble (3 / 10)),
            (''training'', roundDouble (2 / 10))])"

definition combineStep_f64 :: "scores \<Rightarrow> string \<times> rat \<Rightarrow> scores" where
  "combineStep_f64 combined hint =
     (case hint of (cat, h) \<Rightarrow>
        (if truthy (map_of combined cat)
         then (case map_of combined cat of
                 Some s \<Rightarrow> objSet combined cat (fdiv (fadd s h) 2)
               | None \<Rightarrow> objSet combined cat (fmul h (roundDouble (1 / 2))))
         else objSet combined cat (fmul h (roundDouble (1 / 2)))))"

definition combineScores_f64 :: "scores \<Rightarrow> scores \<Rightarrow> scores" where
  "combineScores_f64 mlScores amountHints = foldl combineStep_f64 mlScores amountHints"

definition blend_f64 :: "mlResult \<Rightarrow> rat \<Rightarrow> error + outcome" where
  "blend_f64 mlRes amount =
     (let combined = combineScores_f64 (asDoubles (scores mlRes)) (categorizeByAmount_f64 amount) in
      case reduceBest combined of
        Inl e \<Rightarrow> Inl e
      | Inr bestCategory \<Rightarrow>
          (let conf = jsOr (map_of combined bestCategory)
                           (map_option roundDouble (confidence mlRes)) in
           Inr \<lparr> finalCategory =
                   (if jsGt conf (Some (roundDouble (3 / 10))) then bestCategory else category mlRes),
                 finalConfidence = conf,
                 outMethod = meth mlRes,
                 combinedScores = combined \<rparr>))"

definition classify_f64 :: "mlResult option \<Rightarrow> expenseData \<Rightarrow> error + outcome" where
  "classify_f64 remote expenseData =
     (case (case remote of Some r \<Rightarrow> Inr r | None \<Rightarrow> categorizeByRules expenseData) of
        Inl e \<Rightarrow> Inl e
      | Inr mlRes \<Rightarrow> blend_f64 mlRes (amountOrZero (ed_amount expenseData)))"

text \<open>Inputs of the worked examples.\<close>

definition teamLunch :: expenseData where
  "teamLunch = \<lparr> ed_title = Some ''Team Lunch'', ed_description = None,
       ed_vendor = Some ''Restaurante Central'', ed_amount = Some (171 / 2) \<rparr>"

definition lunchPaper :: expenseData where
  "lunchPaper = \<lparr> ed_title = Some ''Lunch paper'', ed_description = None,
       ed_vendor = None, ed_amount = None \<rparr>"

text \<open>
  An answer of the remote classifier whose score \<^verbatim>\<open>0.2\<close> for meals blends with the hint
  \<^verbatim>\<open>0.4\<close> to \<^verbatim>\<open>0.30000000000000004\<close>, and an expense whose rule-based score \<^verbatim>\<open>0.2\<close>
  for travel does the same while the rules choose meals.
\<close>

definition remoteMeals :: mlResult where
  "remoteMeals = \<lparr> category = ''software'', confidence = Some (9 / 10),
       meth = ''machine-learning'', scores = [(''software'', 1 / 4), (''meals'', 2 / 10)] \<rparr>"

definition tripDinner :: expenseData where
  "tripDinner = \<lparr> ed_title = Some ''Business trip dinner'', ed_description = None,
       ed_vendor = Some ''Pizza Cafe'', ed_amount = Some 600 \<rparr>"

text \<open>Projections of a result that may be an error.\<close>

definition category_of :: "error + mlResult \<Rightarrow> string option" where
  "category_of r = (case r of Inl e \<Rightarrow> None | Inr m \<Rightarrow> Some (category m))"

definition confidence_of :: "error + outcome \<Rightarrow> rat option" where
  "confidence_of r = (case r of Inl e \<Rightarrow> None | Inr out \<Rightarrow> finalConfidence out)"

section \<open>Receipt parser (parseReceiptData)\<close>

text \<open>
  The regular expressions of the parser are written out as matchers. Each of them is
  deterministic: a greedy repetition is followed by nothing or by a character outside
  its own class, so the longest repetition is the only one that can lead to a match, and
  an optional \<^verbatim>\<open>$\<close> that is present must be taken. A search
  (\<^verbatim>\<open>text.match(pattern)\<close>) tries the matcher at every start position from left to
  right. Characters are the code units below 256: digits and word characters are the
  ASCII ones, and white space is the ASCII white space and the no-break space.
\<close>

definition isDigit :: "char \<Rightarrow> bool" where
  "isDigit c = (let n = (of_char c :: nat) in 48 \<le> n \<and> n \<le> 57)"

definition isSpace :: "char \<Rightarrow> bool" where
  "isSpace c = (let n = (of_char c :: nat) in (9 \<le> n \<and> n \<le> 13) \<or> n = 32 \<or> n = 160)"

definition isWordChar :: "char \<Rightarrow> bool" where
  "isWordChar c =
     (let n = (of_char c :: nat) in
      (48 \<le> n \<and> n \<le> 57) \<or> (65 \<le> n \<and> n \<le> 90) \<or> (97 \<le> n \<and> n \<le> 122) \<or> n = 95)"

definition isLineTerminator :: "char \<Rightarrow> bool" where
  "isLineTerminator c = (let n = (of_char c :: nat) in n = 10 \<or> n = 13)"

definition newline :: char where
  "newline = char_of (10 :: nat)"

text \<open>\<^verbatim>\<open>s.split(sep)\<close> for a separator of one character; the result is never empty.\<close>

fun splitOn :: "char \<Rightarrow> string \<Rightarrow> string list" where
  "splitOn sep [] = [[]]"
| "splitOn sep (c # cs) =
     (if c = sep then [] # splitOn sep cs
      else (case splitOn sep cs of [] \<Rightarrow> [[c]] | p # ps \<Rightarrow> (c # p) # ps))"

definition trim :: "string \<Rightarrow> string" where
  "trim s = rev (dropWhile isSpace (rev (dropWhile isSpace s)))"

text \<open>\<^verbatim>\<open>s.replace(a, b)\<close> with one-character strings: only the first occurrence.\<close>

fun replaceFirst :: "char \<Rightarrow> char \<Rightarrow> string \<Rightarrow> string" where
  "replaceFirst a b [] = []"
| "replaceFirst a b (c # cs) = (if c = a then b # cs else c # replaceFirst a b cs)"

definition digitsVal :: "string \<Rightarrow> nat" where
  "digitsVal ds = foldl (\<lambda>n c. 10 * n + (of_char c - 48)) 0 ds"

text \<open>
  \<^verbatim>\<open>parseFloat\<close> on the strings the parser passes to it, which hold digits, dots and
  commas only: the longest prefix of the shape digits, optional dot, digits is read, and
  a prefix with no digit gives \<^verbatim>\<open>NaN\<close> (here \<open>None\<close>).
\<close>

definition parseFloat :: "string \<Rightarrow> rat option" where
  "parseFloat s =
     (let ip = takeWhile isDigit s; r = dropWhile isDigit s;
          fp = (case r of [] \<Rightarrow> [] | c # r' \<Rightarrow> if c = CHR ''.'' then takeWhile isDigit r' else [])
      in if ip = [] \<and> fp = [] then None
         else Some (of_nat (digitsVal ip) + of_nat (digitsVal fp) / 10 ^ length fp))"

fun searchFrom :: "(string \<Rightarrow> 'a option) \<Rightarrow> string \<Rightarrow> 'a option" where
  "searchFrom m [] = m []"
| "searchFrom m (c # cs) = (case m (c # cs) of Some r \<Rightarrow> Some r | None \<Rightarrow> searchFrom m cs)"

text \<open>A literal lower-case word under the flag \<^verbatim>\<open>i\<close>; the rest of the input is returned.\<close>

fun stripWordCI :: "string \<Rightarrow> string \<Rightarrow> string option" where
  "stripWordCI [] s = Some s"
| "stripWordCI (k # ks) [] = None"
| "stripWordCI (k # ks) (c # cs) = (if toLowerChar c = k then stripWordCI ks cs else None)"

text \<open>\<^verbatim>\<open>[\$]?\<close>\<close>

definition optDollar :: "string \<Rightarrow> string" where
  "optDollar s = (case s of [] \<Rightarrow> [] | c # t \<Rightarrow> if c = CHR ''$'' then t else s)"

text \<open>The group \<^verbatim>\<open>(\d+[.,]\d{2})\<close>: the text of the group and the rest of the input.\<close>

definition amountToken :: "string \<Rightarrow> (string \<times> string) option" where
  "amountToken s =
     (let ds = takeWhile isDigit s in
      if ds = [] then None
      else (case dropWhile isDigit s of
              sep # d1 # d2 # rest \<Rightarrow>
                if (sep = CHR ''.'' \<or> sep = CHR '','') \<and> isDigit d1 \<and> isDigit d2
                then Some (ds @ [sep, d1, d2], rest) else None
            | _ \<Rightarrow> None))"

text \<open>\<^verbatim>\<open>/total[:\s]*[\$]?(\d+[.,]\d{2})/i\<close> and the same with \<^verbatim>\<open>amount\<close>.\<close>

definition labelledAmount :: "string \<Rightarrow> string \<Rightarrow> string option" where
  "labelledAmount label s =
     (case stripWordCI label s of
        None \<Rightarrow> None
      | Some r \<Rightarrow>
          map_option fst
            (amountToken (optDollar (dropWhile (\<lambda>c. c = CHR '':'' \<or> isSpace c) r))))"

text \<open>\<^verbatim>\<open>/[\$]?(\d+[.,]\d{2})\s*total/i\<close>\<close>

definition amountBeforeTotal :: "string \<Rightarrow> string option" where
  "amountBeforeTotal s =
     (case amountToken (optDollar s) of
        None \<Rightarrow> None
      | Some (tok, r) \<Rightarrow>
          (case stripWordCI ''total'' (dropWhile isSpace r) of
             None \<Rightarrow> None
           | Some _ \<Rightarrow> Some tok))"

text \<open>\<^verbatim>\<open>/[\$]?(\d+[.,]\d{2})$/m\<close>\<close>

definition amountAtLineEnd :: "string \<Rightarrow> string option" where
  "amountAtLineEnd s =
     (case amountToken (optDollar s) of
        None \<Rightarrow> None
      | Some (tok, r) \<Rightarrow>
          (case r of [] \<Rightarrow> Some tok | c # _ \<Rightarrow> if isLineTerminator c then Some tok else None))"

definition amountPatterns :: "(string \<Rightarrow> string option) list" where
  "amountPatterns =
     [labelledAmount ''total'', labelledAmount ''amount'', amountBeforeTotal, amountAtLineEnd]"

text \<open>The loop over the amount patterns: the first pattern that matches decides.\<close>

fun firstAmount :: "(string \<Rightarrow> string option) list \<Rightarrow> string \<Rightarrow> rat option" where
  "firstAmount [] text = None"
| "firstAmount (p # ps) text =
     (case searchFrom p text of
        Some m1 \<Rightarrow> parseFloat (replaceFirst CHR '','' CHR ''.'' m1)
      | None \<Rightarrow> firstAmount ps text)"

text \<open>\<^verbatim>\<open>\d{lo,hi}\<close>, greedy.\<close>

definition takeDigits :: "nat \<Rightarrow> nat \<Rightarrow> string \<Rightarrow> (string \<times> string) option" where
  "takeDigits lo hi s =
     (let ds = take hi (takeWhile isDigit s) in
      if length ds < lo then None else Some (ds, drop (length ds) s))"

definition isDateSep :: "char \<Rightarrow> bool" where
  "isDateSep c = (c = CHR ''/'' \<or> c = CHR ''-'')"

text \<open>
  \<^verbatim>\<open>/(\d{1,2}[\/\-]\d{1,2}[\/\-]\d{2,4})/\<close> and \<^verbatim>\<open>/(\d{2,4}[\/\-]\d{1,2}[\/\-]\d{1,2})/\<close>:
  three digit groups with their bounds, separated by a slash or a dash.
\<close>

definition numericDate :: "nat \<times> nat \<Rightarrow> nat \<times> nat \<Rightarrow> nat \<times> nat \<Rightarrow> string \<Rightarrow> string option" where
  "numericDate b1 b2 b3 s =
     (case takeDigits (fst b1) (snd b1) s of
        None \<Rightarrow> None
      | Some (g1, r1) \<Rightarrow>
          (case r1 of
             [] \<Rightarrow> None
           | s1 # r2 \<Rightarrow>
               if \<not> isDateSep s1 then None
               else (case takeDigits (fst b2) (snd b2) r2 of
                       None \<Rightarrow> None
                     | Some (g2, r3) \<Rightarrow>
                         (case r3 of
                            [] \<Rightarrow> None
                          | s2 # r4 \<Rightarrow>
                              if \<not> isDateSep s2 then None
                              else (case takeDigits (fst b3) (snd b3) r4 of
                                      None \<Rightarrow> None
                                    | Some (g3, r5) \<Rightarrow> Some (g1 @ [s1] @ g2 @ [s2] @ g3))))))"

text \<open>\<^verbatim>\<open>/(\d{1,2}\s+\w+\s+\d{2,4})/\<close>\<close>

definition wordyDate :: "string \<Rightarrow> string option" where
  "wordyDate s =
     (case takeDigits 1 2 s of
        None \<Rightarrow> None
      | Some (g1, r1) \<Rightarrow>
          (let w1 = takeWhile isSpace r1; r2 = dropWhile isSpace r1;
               wd = takeWhile isWordChar r2; r3 = dropWhile isWordChar r2;
               w2 = takeWhile isSpace r3; r4 = dropWhile isSpace r3
           in if w1 = [] \<or> wd = [] \<or> w2 = [] then None
              else (case takeDigits 2 4 r4 of
                      None \<Rightarrow> None
                    | Some (g3, r5) \<Rightarrow> Some (g1 @ w1 @ wd @ w2 @ g3))))"

definition datePatterns :: "(string \<Rightarrow> string option) list" where
  "datePatterns = [numericDate (1, 2) (1, 2) (2, 4), numericDate (2, 4) (1, 2) (1, 2), wordyDate]"

text \<open>
  How the runtime reads a date is not part of the repository: \<open>toISODate\<close> stands for
  \<^verbatim>\<open>new Date(s)\<close> followed by \<^verbatim>\<open>toISOString().split('T')[0]\<close>, and is \<open>None\<close> for an
  invalid date. The loop takes the first pattern whose match is a valid date.
\<close>

fun firstDate :: "(string \<Rightarrow> string option) \<Rightarrow> (string \<Rightarrow> string option) list \<Rightarrow> string
    \<Rightarrow> string option" where
  "firstDate toISODate [] text = None"
| "firstDate toISODate (p # ps) text =
     (case searchFrom p text of
        None \<Rightarrow> firstDate toISODate ps text
      | Some dateStr \<Rightarrow>
          (case toISODate dateStr of
             Some isoStr \<Rightarrow> Some isoStr
           | None \<Rightarrow> firstDate toISODate ps text))"

record ocrResult =
  fullText :: string
  keyValuePairs :: "(string \<times> string) list"
  ocrConfidence :: rat

record parsedData =
  vendor :: "string option"
  amount :: "rat option"
  date :: "string option"
  items :: "string list"
  total :: "rat option"

text \<open>What a key-value pair contributes: a number for the total, a date.\<close>

definition kvAmount :: "string \<times> string \<Rightarrow> rat option" where
  "kvAmount kv =
     (case kv of (key, val) \<Rightarrow>
        if str_includes key ''total'' \<or> str_includes key ''amount''
        then parseFloat (replaceFirst CHR '','' CHR ''.''
               (filter (\<lambda>c. isDigit c \<or> c = CHR ''.'' \<or> c = CHR '','') val))
        else None)"

definition kvDate :: "(string \<Rightarrow> string option) \<Rightarrow> string \<times> string \<Rightarrow> string option" where
  "kvDate toISODate kv =
     (case kv of (key, val) \<Rightarrow>
        if str_includes key ''date'' \<or> str_includes key ''time'' then toISODate val else None)"

text \<open>One round of the loop over the keys of the key-value map.\<close>

definition kvStep :: "(string \<Rightarrow> string option) \<Rightarrow> parsedData \<Rightarrow> string \<times> string \<Rightarrow> parsedData" where
  "kvStep toISODate parsed kv =
     (let p1 = (case kvAmount kv of Some a \<Rightarrow> parsed \<lparr> total := Some a \<rparr> | None \<Rightarrow> parsed)
      in (case kvDate toISODate kv of Some isoStr \<Rightarrow> p1 \<lparr> date := Some isoStr \<rparr> | None \<Rightarrow> p1))"

definition parseReceiptData :: "(string \<Rightarrow> string option) \<Rightarrow> ocrResult \<Rightarrow> parsedData" where
  "parseReceiptData toISODate ocr =
     (let nonBlank = filter (\<lambda>line. trim line \<noteq> []) (splitOn newline (fullText ocr));
          parsed0 = \<lparr> vendor = (case nonBlank of [] \<Rightarrow> None | l # _ \<Rightarrow> Some (trim l)),
                      amount = firstAmount amountPatterns (fullText ocr),
                      date = firstDate toISODate datePatterns (fullText ocr),
                      items = [],
                      total = None \<rparr>
      in foldl (kvStep toISODate) parsed0 (keyValuePairs ocr))"

text \<open>The stub result the extraction client returns when no provider is configured.\<close>

definition stubResult :: ocrResult where
  "stubResult = \<lparr> fullText = ''SAMPLE RECEIPT TEXT - OCR PROCESSING SIMULATED'',
       keyValuePairs = [(''vendor'', ''Sample Vendor''), (''amount'', ''25.00''),
                        (''date'', ''2025-01-20'')],
       ocrConfidence = 85 / 100 \<rparr>"

definition cafeReceipt :: ocrResult where
  "cafeReceipt = \<lparr> fullText = ''Cafe Bom'' @ [newline] @ ''Total: $12.34'' @ [newline] @ ''03/04/2025'',
       keyValuePairs = [(''total'', ''R$ 25,00'')],
       ocrConfidence = 9 / 10 \<rparr>"

section \<open>Persisted state (database/schema.sql)\<close>

text \<open>
  A table is the list of its rows, identifiers are numbers, and a time stamp is a number
  (\<open>now\<close> is the value of \<^verbatim>\<open>NOW()\<close>). The amount column of an expense is the decimal
  text the database driver returns. Columns no modelled operation reads or writes are
  left out.
\<close>

datatype expense_status = draft | pending | approved | rejected | reimbursed | changes_requested

datatype ocr_status = ocr_pending | ocr_processing | ocr_completed | ocr_failed

datatype user_role = employee | approver | admin

record user =
  usr_id :: nat
  usr_email :: string
  usr_first_name :: string
  usr_last_name :: string
  usr_role :: user_role
  usr_is_active :: bool

record expense =
  exp_id :: nat
  exp_user_id :: nat
  exp_title :: string
  exp_description :: "string option"
  exp_amount :: string
  exp_currency :: string
  exp_expense_date :: string
  exp_vendor :: "string option"
  exp_category :: string
  exp_status :: expense_status
  exp_receipt_url :: "string option"
  exp_receipt_filename :: "string option"
  exp_ocr_data :: "(ocrResult \<times> parsedData) option"
  exp_ocr_status :: ocr_status
  exp_ml_suggested_category :: "string option"
  exp_ml_confidence :: "rat option"
  exp_approver_id :: "nat option"
  exp_approved_at :: "nat option"
  exp_rejected_at :: "nat option"
  exp_reimbursed_at :: "nat option"
  exp_approval_notes :: "string option"
  exp_created_at :: nat
  exp_updated_at :: nat

text \<open>
  The notes of an audit entry are a fixed text or one of the templates the services fill
  in; the metadata is the JSON object the services attach.
\<close>

datatype audit_note =
    Text string
  | OcrCompletedNote rat
  | MlSuggestedNote string "rat option"
  | MlFailedNote string
  | FeedbackNote string string

datatype metadata =
    OcrMeta rat parsedData
  | MlMeta string "rat option" string scores
  | ErrorMeta string
  | FeedbackMeta string string "rat option"

record audit_entry =
  aud_expense_id :: nat
  aud_user_id :: nat
  aud_action :: string
  aud_old_status :: "expense_status option"
  aud_new_status :: "expense_status option"
  aud_notes :: "audit_note option"
  aud_metadata :: "metadata option"
  aud_created_at :: nat

record comment =
  cmt_expense_id :: nat
  cmt_user_id :: nat
  cmt_comment :: string
  cmt_is_internal :: bool

record notification =
  ntf_user_id :: nat
  ntf_title :: string
  ntf_message :: string
  ntf_type :: string
  ntf_related_expense_id :: nat

record ocr_job =
  job_expense_id :: nat
  job_receipt_url :: string
  job_status :: ocr_status
  job_attempts :: int
  job_max_attempts :: int
  job_error_message :: "string option"
  job_processed_at :: "nat option"
  job_created_at :: nat

text \<open>
  The object \<^verbatim>\<open>{ title, description, vendor, amount }\<close> that the creating route hands to
  the categorizer and that a feedback request carries: the fields as they came from the
  request body or from the row, the amount as text.
\<close>

record categorizeArgs =
  ca_title :: string
  ca_description :: "string option"
  ca_vendor :: "string option"
  ca_amount :: string

text \<open>A request to the feedback endpoint of the remote classifier.\<close>

record feedback_request =
  fb_expense_data :: categorizeArgs
  fb_predicted_category :: string
  fb_actual_category :: string
  fb_confidence :: "rat option"

text \<open>
  The state: the tables, and the requests sent so far to the feedback endpoint of the
  remote classifier (the only trace kept of the outside world).
\<close>

record db =
  users :: "user list"
  expenses :: "expense list"
  expense_audit_log :: "audit_entry list"
  expense_comments :: "comment list"
  notifications :: "notification list"
  ocr_queue :: "ocr_job list"
  feedback_requests :: "feedback_request list"

section \<open>Queries, exceptions and transactions (config/database.js)\<close>

text \<open>
  An asynchronous function is a function from the state of the database to a result,
  which is a value or the exception thrown, and the state it leaves. A statement the
  database refuses throws and writes nothing; which statements are refused is an input:
  the statements of an operation are numbered in source order, and \<open>fault n\<close> is the
  message of the error the \<open>n\<close>-th statement meets, if any. Outside a transaction the
  writes made before an exception stay. A transaction that throws is rolled back; a
  failure to begin or to commit has the effect of a failing statement and is not
  numbered apart.
\<close>

type_synonym 'a io = "db \<Rightarrow> (error + 'a) \<times> db"

type_synonym fault = "nat \<Rightarrow> string option"

definition ret :: "'a \<Rightarrow> 'a io" where
  "ret x = (\<lambda>s. (Inr x, s))"

definition throw :: "error \<Rightarrow> 'a io" where
  "throw e = (\<lambda>s. (Inl e, s))"

definition andThen :: "'a io \<Rightarrow> ('a \<Rightarrow> 'b io) \<Rightarrow> 'b io" where
  "andThen m f = (\<lambda>s. case m s of (Inl e, s') \<Rightarrow> (Inl e, s') | (Inr x, s') \<Rightarrow> f x s')"

definition tryCatch :: "'a io \<Rightarrow> (error \<Rightarrow> 'a io) \<Rightarrow> 'a io" where
  "tryCatch m handler = (\<lambda>s. case m s of (Inl e, s') \<Rightarrow> handler e s' | (Inr x, s') \<Rightarrow> (Inr x, s'))"

definition transaction :: "'a io \<Rightarrow> 'a io" where
  "transaction body = (\<lambda>s. case body s of (Inl e, s') \<Rightarrow> (Inl e, s) | (Inr x, s') \<Rightarrow> (Inr x, s'))"

definition query :: "fault \<Rightarrow> nat \<Rightarrow> (db \<Rightarrow> 'a \<times> db) \<Rightarrow> 'a io" where
  "query fault n stmt =
     (\<lambda>s. case fault n of
             Some msg \<Rightarrow> (Inl (Error msg), s)
           | None \<Rightarrow> (case stmt s of (x, s') \<Rightarrow> (Inr x, s')))"

definition errorMessage :: "error \<Rightarrow> string" where
  "errorMessage e = (case e of Error m \<Rightarrow> m | TypeError m \<Rightarrow> m | AppError m c \<Rightarrow> m)"

text \<open>The statements the operations use.\<close>

definition reading :: "(db \<Rightarrow> 'a) \<Rightarrow> db \<Rightarrow> 'a \<times> db" where
  "reading sel s = (sel s, s)"

definition selectExpense :: "nat \<Rightarrow> db \<Rightarrow> expense list" where
  "selectExpense expenseId s = filter (\<lambda>e. exp_id e = expenseId) (expenses s)"

definition selectOwnExpense :: "nat \<Rightarrow> nat \<Rightarrow> db \<Rightarrow> expense list" where
  "selectOwnExpense expenseId userId s =
     filter (\<lambda>e. exp_id e = expenseId \<and> exp_user_id e = userId) (expenses s)"

text \<open>\<^verbatim>\<open>SELECT e.*, u.email, ... FROM expenses e JOIN users u ON e.user_id = u.id WHERE e.id = $1\<close>\<close>

definition selectExpenseWithOwner :: "nat \<Rightarrow> db \<Rightarrow> (expense \<times> user) list" where
  "selectExpenseWithOwner expenseId s =
     concat (map (\<lambda>e. map (\<lambda>u. (e, u)) (filter (\<lambda>u. usr_id u = exp_user_id e) (users s)))
                 (filter (\<lambda>e. exp_id e = expenseId) (expenses s)))"

text \<open>\<^verbatim>\<open>UPDATE expenses SET ... WHERE id = $n RETURNING *\<close>\<close>

definition updateExpense :: "nat \<Rightarrow> (expense \<Rightarrow> expense) \<Rightarrow> db \<Rightarrow> expense list \<times> db" where
  "updateExpense expenseId change s =
     (map change (filter (\<lambda>e. exp_id e = expenseId) (expenses s)),
      s \<lparr> expenses := map (\<lambda>e. if exp_id e = expenseId then change e else e) (expenses s) \<rparr>)"

definition insertAudit :: "audit_entry \<Rightarrow> db \<Rightarrow> unit \<times> db" where
  "insertAudit entry s = ((), s \<lparr> expense_audit_log := expense_audit_log s @ [entry] \<rparr>)"

text \<open>
  \<^verbatim>\<open>INSERT INTO expense_audit_log (...) SELECT $1, user_id, ... FROM expenses WHERE id = $1\<close>:
  one entry for each expense with that identifier, in the name of its owner.
\<close>

definition insertAuditForOwner :: "nat \<Rightarrow> (nat \<Rightarrow> audit_entry) \<Rightarrow> db \<Rightarrow> unit \<times> db" where
  "insertAuditForOwner expenseId entryFor s =
     ((), s \<lparr> expense_audit_log := expense_audit_log s
              @ map (\<lambda>e. entryFor (exp_user_id e)) (filter (\<lambda>e. exp_id e = expenseId) (expenses s)) \<rparr>)"

definition insertNotification :: "notification \<Rightarrow> db \<Rightarrow> unit \<times> db" where
  "insertNotification n s = ((), s \<lparr> notifications := notifications s @ [n] \<rparr>)"

definition insertComment :: "comment \<Rightarrow> db \<Rightarrow> unit \<times> db" where
  "insertComment c s = ((), s \<lparr> expense_comments := expense_comments s @ [c] \<rparr>)"

text \<open>\<^verbatim>\<open>UPDATE ocr_queue SET ... WHERE expense_id = $n\<close>\<close>

definition updateJobs :: "nat \<Rightarrow> (ocr_job \<Rightarrow> ocr_job) \<Rightarrow> db \<Rightarrow> unit \<times> db" where
  "updateJobs expenseId change s =
     ((), s \<lparr> ocr_queue := map (\<lambda>j. if job_expense_id j = expenseId then change j else j) (ocr_queue s) \<rparr>)"

definition firstRow :: "'a list \<Rightarrow> 'a option" where
  "firstRow rows = (case rows of [] \<Rightarrow> None | r # _ \<Rightarrow> Some r)"

section \<open>Lifecycle routes (routes/expenses.js, routes/admin.js)\<close>

text \<open>
  A route returns the row it answers with and the fire-and-forget calls it starts; those
  calls run after the route and are operations of their own (sections below). Sending
  e-mail writes nothing to the database and its failures are swallowed, so it is left out.
\<close>

datatype task =
    ProcessReceiptOCR nat string
  | CategorizeMachine nat categorizeArgs
  | FeedbackLearning nat string

type_synonym reply = "expense option \<times> task list"

definition restrictTo :: "user_role list \<Rightarrow> user \<Rightarrow> 'a io \<Rightarrow> 'a io" where
  "restrictTo roles reqUser handler =
     (if usr_role reqUser \<in> set roles then handler
      else throw (AppError ''You do not have permission to perform this action'' 403))"

text \<open>\<^verbatim>\<open>!reason || reason.trim().length === 0\<close>\<close>

definition isBlank :: "string option \<Rightarrow> bool" where
  "isBlank x = (case x of None \<Rightarrow> True | Some t \<Rightarrow> trim t = [])"

definition nonEmptyStr :: "string option \<Rightarrow> bool" where
  "nonEmptyStr x = (case x of None \<Rightarrow> False | Some t \<Rightarrow> t \<noteq> [])"

text \<open>\<^verbatim>\<open>notes || dflt\<close>\<close>

definition orDefault :: "string option \<Rightarrow> string \<Rightarrow> string" where
  "orDefault x dflt = (case x of None \<Rightarrow> dflt | Some t \<Rightarrow> if t = [] then dflt else t)"

text \<open>\<^verbatim>\<open>ORDER BY RANDOM() LIMIT 1\<close>: the random choice \<open>rnd\<close> is an input.\<close>

definition pickRandom :: "nat \<Rightarrow> 'a list \<Rightarrow> 'a list" where
  "pickRandom rnd rows = (if rows = [] then [] else [rows ! (rnd mod length rows)])"

definition selectApprover :: "nat \<Rightarrow> db \<Rightarrow> user list" where
  "selectApprover rnd s =
     pickRandom rnd
       (filter (\<lambda>u. (usr_role u = approver \<or> usr_role u = admin) \<and> usr_is_active u) (users s))"

definition fullName :: "user \<Rightarrow> string" where
  "fullName u = usr_first_name u @ '' '' @ usr_last_name u"

definition submitExpense :: "fault \<Rightarrow> nat \<Rightarrow> nat \<Rightarrow> user \<Rightarrow> nat \<Rightarrow> reply io" where
  "submitExpense fault rnd now reqUser expenseId =
     andThen (query fault 0 (reading (selectOwnExpense expenseId (usr_id reqUser)))) (\<lambda>rows.
     case rows of
       [] \<Rightarrow> throw (AppError ''Expense not found'' 404)
     | expense # _ \<Rightarrow>
         if exp_status expense \<noteq> draft
         then throw (AppError ''Can only submit expenses in draft status'' 400)
         else
           andThen (query fault 1 (reading (selectApprover rnd))) (\<lambda>approvers.
           case approvers of
             [] \<Rightarrow> throw (AppError ''No approvers available'' 500)
           | apr # _ \<Rightarrow>
               andThen (transaction (
                 andThen (query fault 2 (updateExpense expenseId (\<lambda>e. e
                    \<lparr> exp_status := pending, exp_approver_id := Some (usr_id apr),
                      exp_updated_at := now \<rparr>))) (\<lambda>updated.
                 andThen (query fault 3 (insertAudit
                    \<lparr> aud_expense_id = expenseId, aud_user_id = usr_id reqUser,
                      aud_action = ''submitted'', aud_old_status = Some draft,
                      aud_new_status = Some pending,
                      aud_notes = Some (Text ''Expense submitted for approval''),
                      aud_metadata = None, aud_created_at = now \<rparr>)) (\<lambda>_.
                 andThen (query fault 4 (insertNotification
                    \<lparr> ntf_user_id = usr_id apr, ntf_title = ''New expense requires approval'',
                      ntf_message = fullName reqUser @ '' submitted an expense for ''
                         @ exp_currency expense @ '' '' @ exp_amount expense,
                      ntf_type = ''approval_request'',
                      ntf_related_expense_id = expenseId \<rparr>)) (\<lambda>_.
                 ret (firstRow updated))))))
               (\<lambda>updatedExpense. ret (updatedExpense, []))))"

definition approveExpense :: "fault \<Rightarrow> nat \<Rightarrow> user \<Rightarrow> string option \<Rightarrow> nat \<Rightarrow> reply io" where
  "approveExpense fault now reqUser notes expenseId =
     restrictTo [admin, approver] reqUser (
     andThen (query fault 0 (reading (selectExpenseWithOwner expenseId))) (\<lambda>rows.
     case rows of
       [] \<Rightarrow> throw (AppError ''Expense not found'' 404)
     | (expense, owner) # _ \<Rightarrow>
         if exp_status expense \<noteq> pending
         then throw (AppError ''Can only approve pending expenses'' 400)
         else
           andThen (transaction (
             andThen (query fault 1 (updateExpense expenseId (\<lambda>e. e
                \<lparr> exp_status := approved, exp_approver_id := Some (usr_id reqUser),
                  exp_approved_at := Some now, exp_approval_notes := notes,
                  exp_updated_at := now \<rparr>))) (\<lambda>updated.
             andThen (query fault 2 (insertAudit
                \<lparr> aud_expense_id = expenseId, aud_user_id = usr_id reqUser,
                  aud_action = ''approved'', aud_old_status = Some pending,
                  aud_new_status = Some approved,
                  aud_notes = Some (Text (orDefault notes ''Expense approved'')),
                  aud_metadata = None, aud_created_at = now \<rparr>)) (\<lambda>_.
             andThen (query fault 3 (insertNotification
                \<lparr> ntf_user_id = exp_user_id expense, ntf_title = ''Expense approved'',
                  ntf_message = ''Your expense \"'' @ exp_title expense
                     @ ''\" has been approved by '' @ fullName reqUser,
                  ntf_type = ''expense_approved'',
                  ntf_related_expense_id = expenseId \<rparr>)) (\<lambda>_.
             ret (firstRow updated))))))
           (\<lambda>updatedExpense.
              ret (updatedExpense,
                   if nonEmptyStr (exp_ml_suggested_category expense)
                      \<and> exp_ml_suggested_category expense \<noteq> Some (exp_category expense)
                   then [FeedbackLearning expenseId (exp_category expense)] else []))))"

definition rejectExpense :: "fault \<Rightarrow> nat \<Rightarrow> user \<Rightarrow> string option \<Rightarrow> nat \<Rightarrow> reply io" where
  "rejectExpense fault now reqUser reason expenseId =
     restrictTo [admin, approver] reqUser (
     if isBlank reason then throw (AppError ''Rejection reason is required'' 400)
     else
     andThen (query fault 0 (reading (selectExpenseWithOwner expenseId))) (\<lambda>rows.
     case rows of
       [] \<Rightarrow> throw (AppError ''Expense not found'' 404)
     | (expense, owner) # _ \<Rightarrow>
         if exp_status expense \<noteq> pending
         then throw (AppError ''Can only reject pending expenses'' 400)
         else
           andThen (transaction (
             andThen (query fault 1 (updateExpense expenseId (\<lambda>e. e
                \<lparr> exp_status := rejected, exp_approver_id := Some (usr_id reqUser),
                  exp_rejected_at := Some now, exp_approval_notes := reason,
                  exp_updated_at := now \<rparr>))) (\<lambda>updated.
             andThen (query fault 2 (insertAudit
                \<lparr> aud_expense_id = expenseId, aud_user_id = usr_id reqUser,
                  aud_action = ''rejected'', aud_old_status = Some pending,
                  aud_new_status = Some rejected,
                  aud_notes = map_option Text reason,
                  aud_metadata = None, aud_created_at = now \<rparr>)) (\<lambda>_.
             andThen (query fault 3 (insertNotification
                \<lparr> ntf_user_id = exp_user_id expense, ntf_title = ''Expense rejected'',
                  ntf_message = ''Your expense \"'' @ exp_title expense
                     @ ''\" has been rejected by '' @ fullName reqUser,
                  ntf_type = ''expense_rejected'',
                  ntf_related_expense_id = expenseId \<rparr>)) (\<lambda>_.
             ret (firstRow updated))))))
           (\<lambda>updatedExpense. ret (updatedExpense, []))))"

definition requestChanges :: "fault \<Rightarrow> nat \<Rightarrow> user \<Rightarrow> string option \<Rightarrow> nat \<Rightarrow> reply io" where
  "requestChanges fault now reqUser message expenseId =
     restrictTo [admin, approver] reqUser (
     if isBlank message then throw (AppError ''Change request message is required'' 400)
     else
     andThen (query fault 0 (reading (selectExpenseWithOwner expenseId))) (\<lambda>rows.
     case rows of
       [] \<Rightarrow> throw (AppError ''Expense not found'' 404)
     | (expense, owner) # _ \<Rightarrow>
         if exp_status expense \<noteq> pending
         then throw (AppError ''Can only request changes for pending expenses'' 400)
         else
           andThen (transaction (
             andThen (query fault 1 (updateExpense expenseId (\<lambda>e. e
                \<lparr> exp_status := changes_requested, exp_approver_id := Some (usr_id reqUser),
                  exp_approval_notes := message, exp_updated_at := now \<rparr>))) (\<lambda>updated.
             andThen (query fault 2 (insertComment
                \<lparr> cmt_expense_id = expenseId, cmt_user_id = usr_id reqUser,
                  cmt_comment = orEmpty message, cmt_is_internal = False \<rparr>)) (\<lambda>_.
             andThen (query fault 3 (insertAudit
                \<lparr> aud_expense_id = expenseId, aud_user_id = usr_id reqUser,
                  aud_action = ''changes_requested'', aud_old_status = Some pending,
                  aud_new_status = Some changes_requested,
                  aud_notes = map_option Text message,
                  aud_metadata = None, aud_created_at = now \<rparr>)) (\<lambda>_.
             andThen (query fault 4 (insertNotification
                \<lparr> ntf_user_id = exp_user_id expense,
                  ntf_title = ''Changes requested for expense'',
                  ntf_message = fullName reqUser
                     @ '' has requested changes to your expense \"'' @ exp_title expense @ ''\"'',
                  ntf_type = ''changes_requested'',
                  ntf_related_expense_id = expenseId \<rparr>)) (\<lambda>_.
             ret (firstRow updated)))))))
           (\<lambda>updatedExpense. ret (updatedExpense, []))))"

definition reimburseExpense :: "fault \<Rightarrow> nat \<Rightarrow> user \<Rightarrow> string option \<Rightarrow> nat \<Rightarrow> reply io" where
  "reimburseExpense fault now reqUser notes expenseId =
     restrictTo [admin, approver] reqUser (
     restrictTo [admin] reqUser (
     andThen (query fault 0 (reading (selectExpenseWithOwner expenseId))) (\<lambda>rows.
     case rows of
       [] \<Rightarrow> throw (AppError ''Expense not found'' 404)
     | (expense, owner) # _ \<Rightarrow>
         if exp_status expense \<noteq> approved
         then throw (AppError ''Can only reimburse approved expenses'' 400)
         else
           andThen (transaction (
             andThen (query fault 1 (updateExpense expenseId (\<lambda>e. e
                \<lparr> exp_status := reimbursed, exp_reimbursed_at := Some now,
                  exp_updated_at := now \<rparr>))) (\<lambda>updated.
             andThen (query fault 2 (insertAudit
                \<lparr> aud_expense_id = expenseId, aud_user_id = usr_id reqUser,
                  aud_action = ''reimbursed'', aud_old_status = Some approved,
                  aud_new_status = Some reimbursed,
                  aud_notes = Some (Text (orDefault notes ''Expense reimbursed'')),
                  aud_metadata = None, aud_created_at = now \<rparr>)) (\<lambda>_.
             andThen (query fault 3 (insertNotification
                \<lparr> ntf_user_id = exp_user_id expense, ntf_title = ''Expense reimbursed'',
                  ntf_message = ''Your expense \"'' @ exp_title expense @ ''\" has been reimbursed'',
                  ntf_type = ''expense_reimbursed'',
                  ntf_related_expense_id = expenseId \<rparr>)) (\<lambda>_.
             ret (firstRow updated))))))
           (\<lambda>updatedExpense. ret (updatedExpense, [])))))"

text \<open>The five transitions under one name, with the table of section 4.5.\<close>

datatype transition =
    Submit
  | Approve "string option"
  | Reject "string option"
  | RequestChanges "string option"
  | Reimburse "string option"

definition perform :: "fault \<Rightarrow> nat \<Rightarrow> nat \<Rightarrow> user \<Rightarrow> transition \<Rightarrow> nat \<Rightarrow> reply io" where
  "perform fault rnd now reqUser t expenseId =
     (case t of
        Submit \<Rightarrow> submitExpense fault rnd now reqUser expenseId
      | Approve notes \<Rightarrow> approveExpense fault now reqUser notes expenseId
      | Reject reason \<Rightarrow> rejectExpense fault now reqUser reason expenseId
      | RequestChanges message \<Rightarrow> requestChanges fault now reqUser message expenseId
      | Reimburse notes \<Rightarrow> reimburseExpense fault now reqUser notes expenseId)"

definition sourceStatus :: "transition \<Rightarrow> expense_status" where
  "sourceStatus t =
     (case t of Submit \<Rightarrow> draft | Approve _ \<Rightarrow> pending | Reject _ \<Rightarrow> pending
      | RequestChanges _ \<Rightarrow> pending | Reimburse _ \<Rightarrow> approved)"

definition targetStatus :: "transition \<Rightarrow> expense_status" where
  "targetStatus t =
     (case t of Submit \<Rightarrow> pending | Approve _ \<Rightarrow> approved | Reject _ \<Rightarrow> rejected
      | RequestChanges _ \<Rightarrow> changes_requested | Reimburse _ \<Rightarrow> reimbursed)"

definition guardMessage :: "transition \<Rightarrow> string" where
  "guardMessage t =
     (case t of
        Submit \<Rightarrow> ''Can only submit expenses in draft status''
      | Approve _ \<Rightarrow> ''Can only approve pending expenses''
      | Reject _ \<Rightarrow> ''Can only reject pending expenses''
      | RequestChanges _ \<Rightarrow> ''Can only request changes for pending expenses''
      | Reimburse _ \<Rightarrow> ''Can only reimburse approved expenses'')"

definition statusName :: "expense_status \<Rightarrow> string" where
  "statusName st =
     (case st of draft \<Rightarrow> ''draft'' | pending \<Rightarrow> ''pending'' | approved \<Rightarrow> ''approved''
      | rejected \<Rightarrow> ''rejected'' | reimbursed \<Rightarrow> ''reimbursed''
      | changes_requested \<Rightarrow> ''changes_requested'')"

text \<open>
  What a caller must satisfy for the route to reach its status guard: the role the
  router asks for, a reason or message that is not blank, and an expense the route's
  first query finds (for a submission, an expense of the caller's own; for the others,
  an expense whose owner is a user).
\<close>

definition allowedRoles :: "transition \<Rightarrow> user_role list" where
  "allowedRoles t = (case t of Submit \<Rightarrow> [employee, approver, admin]
      | Reimburse _ \<Rightarrow> [admin] | _ \<Rightarrow> [admin, approver])"

definition wellFormed :: "transition \<Rightarrow> bool" where
  "wellFormed t = (case t of Reject reason \<Rightarrow> \<not> isBlank reason
      | RequestChanges message \<Rightarrow> \<not> isBlank message | _ \<Rightarrow> True)"

definition foundExpense :: "user \<Rightarrow> transition \<Rightarrow> nat \<Rightarrow> db \<Rightarrow> expense option" where
  "foundExpense reqUser t expenseId s =
     (case t of
        Submit \<Rightarrow> firstRow (selectOwnExpense expenseId (usr_id reqUser) s)
      | _ \<Rightarrow> map_option fst (firstRow (selectExpenseWithOwner expenseId s)))"

text \<open>
  The unit a successful transition writes: the expense has the target status and every
  other expense is as before; the audit log has grown by one entry, for this expense,
  from the source to the target status; one notification about this expense was added;
  a change request also adds one comment; users and extraction jobs are untouched.
\<close>

definition writtenTogether :: "transition \<Rightarrow> nat \<Rightarrow> db \<Rightarrow> db \<Rightarrow> bool" where
  "writtenTogether t expenseId s s' =
     (list_all2 (\<lambda>x x'. if exp_id x = expenseId
                         then exp_id x' = expenseId \<and> exp_status x' = targetStatus t
                         else x' = x) (expenses s) (expenses s')
      \<and> length (expense_audit_log s') = Suc (length (expense_audit_log s))
      \<and> butlast (expense_audit_log s') = expense_audit_log s
      \<and> aud_expense_id (last (expense_audit_log s')) = expenseId
      \<and> aud_old_status (last (expense_audit_log s')) = Some (sourceStatus t)
      \<and> aud_new_status (last (expense_audit_log s')) = Some (targetStatus t)
      \<and> length (notifications s') = Suc (length (notifications s))
      \<and> butlast (notifications s') = notifications s
      \<and> ntf_related_expense_id (last (notifications s')) = expenseId
      \<and> (case t of
            RequestChanges _ \<Rightarrow>
              length (expense_comments s') = Suc (length (expense_comments s))
              \<and> butlast (expense_comments s') = expense_comments s
          | _ \<Rightarrow> expense_comments s' = expense_comments s)
      \<and> users s' = users s \<and> ocr_queue s' = ocr_queue s
      \<and> feedback_requests s' = feedback_requests s)"

text \<open>A small database for the worked examples.\<close>

definition noFault :: fault where
  "noFault = (\<lambda>n. None)"

definition alice :: user where
  "alice = \<lparr> usr_id = 1, usr_email = ''alice@example.com'', usr_first_name = ''Alice'',
       usr_last_name = ''Silva'', usr_role = employee, usr_is_active = True \<rparr>"

definition bob :: user where
  "bob = \<lparr> usr_id = 2, usr_email = ''bob@example.com'', usr_first_name = ''Bob'',
       usr_last_name = ''Souza'', usr_role = approver, usr_is_active = True \<rparr>"

definition carol :: user where
  "carol = \<lparr> usr_id = 3, usr_email = ''carol@example.com'', usr_first_name = ''Carol'',
       usr_last_name = ''Lima'', usr_role = admin, usr_is_active = True \<rparr>"

definition lunchExpense :: expense where
  "lunchExpense = \<lparr> exp_id = 10, exp_user_id = 1, exp_title = ''Team Lunch'',
       exp_description = None, exp_amount = ''85.50'', exp_currency = ''BRL'',
       exp_expense_date = ''2025-01-15'', exp_vendor = Some ''Restaurante Central'',
       exp_category = ''meals'', exp_status = draft,
       exp_receipt_url = Some ''https://bucket/receipts/1/a.png'',
       exp_receipt_filename = Some ''a.png'', exp_ocr_data = None, exp_ocr_status = ocr_pending,
       exp_ml_suggested_category = None, exp_ml_confidence = None, exp_approver_id = None,
       exp_approved_at = None, exp_rejected_at = None, exp_reimbursed_at = None,
       exp_approval_notes = None, exp_created_at = 100, exp_updated_at = 100 \<rparr>"

definition createdEntry :: audit_entry where
  "createdEntry = \<lparr> aud_expense_id = 10, aud_user_id = 1, aud_action = ''created'',
       aud_old_status = None, aud_new_status = Some draft,
       aud_notes = Some (Text ''Expense created''), aud_metadata = None, aud_created_at = 100 \<rparr>"

definition lunchJob :: ocr_job where
  "lunchJob = \<lparr> job_expense_id = 10, job_receipt_url = ''https://bucket/receipts/1/a.png'',
       job_status = ocr_pending, job_attempts = 0, job_max_attempts = 3,
       job_error_message = None, job_processed_at = None, job_created_at = 100 \<rparr>"

definition draftDb :: db where
  "draftDb = \<lparr> users = [alice, bob, carol], expenses = [lunchExpense],
       expense_audit_log = [createdEntry], expense_comments = [], notifications = [],
       ocr_queue = [lunchJob], feedback_requests = [] \<rparr>"

definition pendingDb :: db where
  "pendingDb = draftDb \<lparr> expenses := [lunchExpense \<lparr> exp_status := pending \<rparr>] \<rparr>"

section \<open>Extraction queue (processReceiptOCR, retryOCRProcessing)\<close>

text \<open>
  The document-understanding provider is an input: with no provider configured the client
  answers with the stub result, and with a provider, \<open>detect key\<close> is the normalised
  answer for a document, or \<open>None\<close> when the call or the normalisation throws.
\<close>

datatype provider = Unconfigured | Textract "string \<Rightarrow> ocrResult option"

definition extractTextFromImage :: "provider \<Rightarrow> string \<Rightarrow> error + ocrResult" where
  "extractTextFromImage prov s3Key =
     (case prov of
        Unconfigured \<Rightarrow> Inr stubResult
      | Textract detect \<Rightarrow>
          (case detect s3Key of
             None \<Rightarrow> Inl (Error ''Failed to extract text from receipt'')
           | Some r \<Rightarrow> Inr r))"

fun joinWith :: "char \<Rightarrow> string list \<Rightarrow> string" where
  "joinWith sep [] = []"
| "joinWith sep [x] = x"
| "joinWith sep (x # y # ys) = x @ sep # joinWith sep (y # ys)"

text \<open>\<^verbatim>\<open>receiptUrl.split('/').slice(-2).join('/')\<close>; a null URL has no \<^verbatim>\<open>split\<close>.\<close>

definition s3KeyOf :: "string option \<Rightarrow> error + string" where
  "s3KeyOf receiptUrl =
     (case receiptUrl of
        None \<Rightarrow> Inl (TypeError ''Cannot read properties of null'')
      | Some url \<Rightarrow>
          (let parts = splitOn CHR ''/'' url in Inr (joinWith CHR ''/'' (drop (length parts - 2) parts))))"

definition liftE :: "error + 'a \<Rightarrow> 'a io" where
  "liftE r = (\<lambda>s. (r, s))"

text \<open>
  The body of the \<^verbatim>\<open>try\<close> block. The trigger of the schema sets \<^verbatim>\<open>updated_at\<close> on every
  update of an expense.
\<close>

definition ocrAttempt :: "fault \<Rightarrow> provider \<Rightarrow> (string \<Rightarrow> string option) \<Rightarrow> nat \<Rightarrow> nat
    \<Rightarrow> string option \<Rightarrow> parsedData io" where
  "ocrAttempt fault prov toISODate now expenseId receiptUrl =
     andThen (query fault 0 (updateExpense expenseId (\<lambda>e. e
        \<lparr> exp_ocr_status := ocr_processing, exp_updated_at := now \<rparr>))) (\<lambda>_.
     andThen (query fault 1 (updateJobs expenseId (\<lambda>j. j
        \<lparr> job_status := ocr_processing, job_processed_at := Some now \<rparr>))) (\<lambda>_.
     andThen (liftE (s3KeyOf receiptUrl)) (\<lambda>s3Key.
     andThen (liftE (extractTextFromImage prov s3Key)) (\<lambda>ocrRes.
     andThen (query fault 2 (updateExpense expenseId (\<lambda>e. e
        \<lparr> exp_ocr_data := Some (ocrRes, parseReceiptData toISODate ocrRes),
          exp_ocr_status := ocr_completed, exp_updated_at := now \<rparr>))) (\<lambda>_.
     andThen (query fault 3 (updateJobs expenseId (\<lambda>j. j
        \<lparr> job_status := ocr_completed, job_processed_at := Some now \<rparr>))) (\<lambda>_.
     andThen (query fault 4 (insertAuditForOwner expenseId (\<lambda>userId.
        \<lparr> aud_expense_id = expenseId, aud_user_id = userId, aud_action = ''ocr_processed'',
          aud_old_status = None, aud_new_status = None,
          aud_notes = Some (OcrCompletedNote (ocrConfidence ocrRes)),
          aud_metadata = Some (OcrMeta (ocrConfidence ocrRes) (parseReceiptData toISODate ocrRes)),
          aud_created_at = now \<rparr>))) (\<lambda>_.
     ret (parseReceiptData toISODate ocrRes))))))))"

text \<open>The \<^verbatim>\<open>catch\<close> block: two updates, then the error is thrown again.\<close>

definition ocrFailed :: "fault \<Rightarrow> nat \<Rightarrow> nat \<Rightarrow> error \<Rightarrow> parsedData io" where
  "ocrFailed fault now expenseId err =
     andThen (query fault 5 (updateExpense expenseId (\<lambda>e. e
        \<lparr> exp_ocr_status := ocr_failed, exp_updated_at := now \<rparr>))) (\<lambda>_.
     andThen (query fault 6 (updateJobs expenseId (\<lambda>j. j
        \<lparr> job_status := ocr_failed, job_error_message := Some (errorMessage err),
          job_attempts := job_attempts j + 1, job_processed_at := Some now \<rparr>))) (\<lambda>_.
     throw err))"

definition processReceiptOCR :: "fault \<Rightarrow> provider \<Rightarrow> (string \<Rightarrow> string option) \<Rightarrow> nat \<Rightarrow> nat
    \<Rightarrow> string option \<Rightarrow> parsedData io" where
  "processReceiptOCR fault prov toISODate now expenseId receiptUrl =
     tryCatch (ocrAttempt fault prov toISODate now expenseId receiptUrl)
              (ocrFailed fault now expenseId)"

text \<open>Some step of the \<^verbatim>\<open>try\<close> block fails: a statement, the URL, or the extraction.\<close>

definition stepFails :: "fault \<Rightarrow> provider \<Rightarrow> string option \<Rightarrow> bool" where
  "stepFails fault prov receiptUrl =
     (fault 0 \<noteq> None \<or> fault 1 \<noteq> None \<or> fault 2 \<noteq> None \<or> fault 3 \<noteq> None \<or> fault 4 \<noteq> None
      \<or> (case s3KeyOf receiptUrl of
            Inl e \<Rightarrow> True
          | Inr s3Key \<Rightarrow> isl (extractTextFromImage prov s3Key)))"

text \<open>
  What a failed run leaves: the expense marked failed, every job of the expense marked
  failed with one more attempt and the message of the error, every other job as it was,
  and the audit log as it was.
\<close>

definition failureRecorded :: "nat \<Rightarrow> error \<Rightarrow> db \<Rightarrow> db \<Rightarrow> bool" where
  "failureRecorded expenseId err s s' =
     (list_all2 (\<lambda>x x'. if exp_id x = expenseId
                         then exp_id x' = expenseId \<and> exp_ocr_status x' = ocr_failed
                              \<and> exp_status x' = exp_status x
                         else x' = x) (expenses s) (expenses s')
      \<and> list_all2 (\<lambda>j j'. if job_expense_id j = expenseId
                           then j' = j \<lparr> job_status := ocr_failed,
                                         job_error_message := Some (errorMessage err),
                                         job_attempts := job_attempts j + 1,
                                         job_processed_at := job_processed_at j' \<rparr>
                           else j' = j) (ocr_queue s) (ocr_queue s')
      \<and> expense_audit_log s' = expense_audit_log s)"

text \<open>
  The sweep. The window is 24 hours, in seconds, and the batch is 10 jobs. Rows of equal
  age are taken in table order. Each round has its own faults and its own provider
  behaviour (\<open>envs i\<close> for round \<open>i\<close>); statement 7 of a round is the query for the receipt
  URL. The function returns nothing; the extraction calls it makes are kept as a trace,
  each with its round, its arguments and the state it was made in.
\<close>

definition retryable :: "nat \<Rightarrow> ocr_job \<Rightarrow> bool" where
  "retryable now j =
     (job_status j = ocr_failed \<and> job_attempts j < job_max_attempts j
      \<and> now < job_created_at j + 86400)"

definition selectFailedJobs :: "nat \<Rightarrow> db \<Rightarrow> ocr_job list" where
  "selectFailedJobs now s = take 10 (sort_key job_created_at (filter (retryable now) (ocr_queue s)))"

record invocation =
  inv_round :: nat
  inv_expense_id :: nat
  inv_receipt_url :: "string option"
  inv_before :: db

fun retryLoop :: "(nat \<Rightarrow> fault \<times> provider) \<Rightarrow> (string \<Rightarrow> string option) \<Rightarrow> nat \<Rightarrow> nat
    \<Rightarrow> ocr_job list \<Rightarrow> db \<Rightarrow> invocation list \<times> db" where
  "retryLoop envs toISODate now i [] s = ([], s)"
| "retryLoop envs toISODate now i (job # jobs) s =
     (case fst (envs i) 7 of
        Some msg \<Rightarrow> retryLoop envs toISODate now (Suc i) jobs s
      | None \<Rightarrow>
          (case selectExpense (job_expense_id job) s of
             [] \<Rightarrow> retryLoop envs toISODate now (Suc i) jobs s
           | e # _ \<Rightarrow>
               (let s1 = snd (processReceiptOCR (fst (envs i)) (snd (envs i)) toISODate now
                                (job_expense_id job) (exp_receipt_url e) s);
                    rest = retryLoop envs toISODate now (Suc i) jobs s1
                in (\<lparr> inv_round = i, inv_expense_id = job_expense_id job,
                      inv_receipt_url = exp_receipt_url e, inv_before = s \<rparr> # fst rest,
                    snd rest))))"

definition retryOCRProcessing :: "string option \<Rightarrow> (nat \<Rightarrow> fault \<times> provider)
    \<Rightarrow> (string \<Rightarrow> string option) \<Rightarrow> nat \<Rightarrow> db \<Rightarrow> invocation list \<times> db" where
  "retryOCRProcessing sweepFault envs toISODate now s =
     (case sweepFault of
        Some msg \<Rightarrow> ([], s)
      | None \<Rightarrow> retryLoop envs toISODate now 0 (selectFailedJobs now s) s)"


text \<open>A provider whose every call fails, and the receipt of the sample expense.\<close>

definition failingProvider :: provider where
  "failingProvider = Textract (\<lambda>key. None)"

definition lunchReceipt :: "string option" where
  "lunchReceipt = Some ''https://bucket/receipts/1/a.png''"

text \<open>
  A queue with a job in progress, a failed job that may be retried, a failed job that
  has used its three attempts and a failed job created more than 24 hours before the
  sweep, which runs at time 90000; every round of the sweep meets a failing provider.
\<close>

definition queueDb :: db where
  "queueDb = draftDb
     \<lparr> expenses := [lunchExpense, lunchExpense \<lparr> exp_id := 11 \<rparr>, lunchExpense \<lparr> exp_id := 12 \<rparr>,
                    lunchExpense \<lparr> exp_id := 13 \<rparr>],
       ocr_queue :=
         [lunchJob \<lparr> job_status := ocr_processing, job_created_at := 4000 \<rparr>,
          lunchJob \<lparr> job_expense_id := 11, job_status := ocr_failed, job_attempts := 1,
                     job_created_at := 5000 \<rparr>,
          lunchJob \<lparr> job_expense_id := 12, job_status := ocr_failed, job_attempts := 3,
                     job_created_at := 6000 \<rparr>,
          lunchJob \<lparr> job_expense_id := 13, job_status := ocr_failed, job_attempts := 1,
                     job_created_at := 500 \<rparr>] \<rparr>"


definition failingRounds :: "nat \<Rightarrow> fault \<times> provider" where
  "failingRounds = (\<lambda>i. (noFault, failingProvider))"

section \<open>Creating, updating and deleting an expense (routes/expenses.js)\<close>

text \<open>
  What the schema declares about the extraction queue: whether \<^verbatim>\<open>expense_id\<close> carries a
  unique index. PostgreSQL refuses \<^verbatim>\<open>INSERT ... ON CONFLICT (expense_id)\<close> on a table
  with no unique index or constraint on that column, whatever the rows are; with the
  index it updates the row in conflict or inserts a new one, and a plain insert of a
  second row for the expense is refused. The table of \<^verbatim>\<open>schema.sql\<close> has a primary key
  on \<^verbatim>\<open>id\<close> and no unique index on \<^verbatim>\<open>expense_id\<close>.
\<close>

record schema =
  ocr_queue_unique_expense_id :: bool

definition schemaSql :: schema where
  "schemaSql = \<lparr> ocr_queue_unique_expense_id = False \<rparr>"

definition queryChecked :: "fault \<Rightarrow> nat \<Rightarrow> (db \<Rightarrow> string + 'a \<times> db) \<Rightarrow> 'a io" where
  "queryChecked fault n stmt =
     (\<lambda>s. case fault n of
             Some msg \<Rightarrow> (Inl (Error msg), s)
           | None \<Rightarrow> (case stmt s of
                        Inl msg \<Rightarrow> (Inl (Error msg), s)
                      | Inr (x, s') \<Rightarrow> (Inr x, s')))"

definition insertJob :: "schema \<Rightarrow> ocr_job \<Rightarrow> db \<Rightarrow> string + unit \<times> db" where
  "insertJob sch job s =
     (if ocr_queue_unique_expense_id sch
         \<and> job_expense_id job \<in> set (map job_expense_id (ocr_queue s))
      then Inl ''duplicate key value violates unique constraint''
      else Inr ((), s \<lparr> ocr_queue := ocr_queue s @ [job] \<rparr>))"

definition upsertJob :: "schema \<Rightarrow> ocr_job \<Rightarrow> db \<Rightarrow> string + unit \<times> db" where
  "upsertJob sch job s =
     (if \<not> ocr_queue_unique_expense_id sch
      then Inl ''there is no unique or exclusion constraint matching the ON CONFLICT specification''
      else if job_expense_id job \<in> set (map job_expense_id (ocr_queue s))
      then Inr ((), s \<lparr> ocr_queue :=
                    map (\<lambda>j. if job_expense_id j = job_expense_id job
                              then j \<lparr> job_receipt_url := job_receipt_url job,
                                      job_status := job_status job, job_attempts := 0,
                                      job_created_at := job_created_at job \<rparr>
                              else j) (ocr_queue s) \<rparr>)
      else Inr ((), s \<lparr> ocr_queue := ocr_queue s @ [job] \<rparr>))"

text \<open>A new job, with the defaults of the table.\<close>

definition newJob :: "nat \<Rightarrow> string \<Rightarrow> nat \<Rightarrow> ocr_job" where
  "newJob expenseId receiptUrl now =
     \<lparr> job_expense_id = expenseId, job_receipt_url = receiptUrl, job_status = ocr_pending,
       job_attempts = 0, job_max_attempts = 3, job_error_message = None,
       job_processed_at = None, job_created_at = now \<rparr>"

text \<open>
  The validated body of a request, and what became of the uploaded file: none, stored at
  a location under its original name, or an upload that failed.
\<close>

record expenseBody =
  bd_title :: string
  bd_description :: "string option"
  bd_amount :: string
  bd_currency :: "string option"
  bd_expense_date :: string
  bd_vendor :: "string option"
  bd_category :: string

datatype upload = NoFile | Uploaded string string | UploadFails

definition insertExpense :: "expense \<Rightarrow> db \<Rightarrow> expense \<times> db" where
  "insertExpense e s = (e, s \<lparr> expenses := expenses s @ [e] \<rparr>)"

definition updateOwnExpense :: "nat \<Rightarrow> nat \<Rightarrow> (expense \<Rightarrow> expense) \<Rightarrow> db \<Rightarrow> expense list \<times> db" where
  "updateOwnExpense expenseId userId change s =
     (map change (filter (\<lambda>e. exp_id e = expenseId \<and> exp_user_id e = userId) (expenses s)),
      s \<lparr> expenses := map (\<lambda>e. if exp_id e = expenseId \<and> exp_user_id e = userId
                                then change e else e) (expenses s) \<rparr>)"

definition createExpense :: "schema \<Rightarrow> fault \<Rightarrow> nat \<Rightarrow> nat \<Rightarrow> user \<Rightarrow> expenseBody \<Rightarrow> upload
    \<Rightarrow> reply io" where
  "createExpense sch fault newId now reqUser body file =
     (case file of
        UploadFails \<Rightarrow> throw (Error ''Failed to upload file'')
      | _ \<Rightarrow>
        (let receiptUrl = (case file of Uploaded url name \<Rightarrow> Some url | _ \<Rightarrow> None);
             receiptFilename = (case file of Uploaded url name \<Rightarrow> Some name | _ \<Rightarrow> None)
         in
         andThen (transaction (
           andThen (query fault 0 (insertExpense
              \<lparr> exp_id = newId, exp_user_id = usr_id reqUser, exp_title = bd_title body,
                exp_description = bd_description body, exp_amount = bd_amount body,
                exp_currency = (case bd_currency body of None \<Rightarrow> ''BRL'' | Some c \<Rightarrow> c),
                exp_expense_date = bd_expense_date body, exp_vendor = bd_vendor body,
                exp_category = bd_category body, exp_status = draft,
                exp_receipt_url = receiptUrl, exp_receipt_filename = receiptFilename,
                exp_ocr_data = None, exp_ocr_status = ocr_pending,
                exp_ml_suggested_category = None, exp_ml_confidence = None,
                exp_approver_id = None, exp_approved_at = None, exp_rejected_at = None,
                exp_reimbursed_at = None, exp_approval_notes = None,
                exp_created_at = now, exp_updated_at = now \<rparr>)) (\<lambda>newExpense.
           andThen (query fault 1 (insertAudit
              \<lparr> aud_expense_id = exp_id newExpense, aud_user_id = usr_id reqUser,
                aud_action = ''created'', aud_old_status = None, aud_new_status = Some draft,
                aud_notes = Some (Text ''Expense created''), aud_metadata = None,
                aud_created_at = now \<rparr>)) (\<lambda>_.
           andThen (case receiptUrl of
                      Some url \<Rightarrow> queryChecked fault 2 (insertJob sch (newJob (exp_id newExpense) url now))
                    | None \<Rightarrow> ret ()) (\<lambda>_.
           ret newExpense)))))
         (\<lambda>expense.
            ret (Some expense,
                 (case receiptUrl of
                    Some url \<Rightarrow> [ProcessReceiptOCR (exp_id expense) url]
                  | None \<Rightarrow> [])
                 @ [CategorizeMachine (exp_id expense)
                      \<lparr> ca_title = bd_title body, ca_description = bd_description body,
                        ca_vendor = bd_vendor body, ca_amount = bd_amount body \<rparr>]))))"

definition updateExpenseRoute :: "schema \<Rightarrow> fault \<Rightarrow> nat \<Rightarrow> user \<Rightarrow> nat \<Rightarrow> expenseBody \<Rightarrow> upload
    \<Rightarrow> reply io" where
  "updateExpenseRoute sch fault now reqUser expenseId body file =
     andThen (query fault 0 (reading (selectOwnExpense expenseId (usr_id reqUser)))) (\<lambda>rows.
     case rows of
       [] \<Rightarrow> throw (AppError ''Expense not found'' 404)
     | currentExpense # _ \<Rightarrow>
         if exp_status currentExpense \<noteq> draft
         then throw (AppError ''Can only update expenses in draft status'' 400)
         else
         (case file of
            UploadFails \<Rightarrow> throw (Error ''Failed to upload file'')
          | _ \<Rightarrow>
            (let receiptUrl = (case file of Uploaded url name \<Rightarrow> Some url
                               | _ \<Rightarrow> exp_receipt_url currentExpense);
                 receiptFilename = (case file of Uploaded url name \<Rightarrow> Some name
                               | _ \<Rightarrow> exp_receipt_filename currentExpense)
             in
             andThen (transaction (
               andThen (query fault 1 (updateOwnExpense expenseId (usr_id reqUser) (\<lambda>e. e
                  \<lparr> exp_title := bd_title body, exp_description := bd_description body,
                    exp_amount := bd_amount body,
                    exp_currency := (case bd_currency body of None \<Rightarrow> ''BRL'' | Some c \<Rightarrow> c),
                    exp_expense_date := bd_expense_date body, exp_vendor := bd_vendor body,
                    exp_category := bd_category body, exp_receipt_url := receiptUrl,
                    exp_receipt_filename := receiptFilename, exp_updated_at := now \<rparr>))) (\<lambda>updated.
               andThen (query fault 2 (insertAudit
                  \<lparr> aud_expense_id = expenseId, aud_user_id = usr_id reqUser,
                    aud_action = ''updated'', aud_old_status = None, aud_new_status = None,
                    aud_notes = Some (Text ''Expense details updated''), aud_metadata = None,
                    aud_created_at = now \<rparr>)) (\<lambda>_.
               andThen (case file of
                          Uploaded url name \<Rightarrow>
                            queryChecked fault 3 (upsertJob sch (newJob expenseId url now))
                        | _ \<Rightarrow> ret ()) (\<lambda>_.
               ret (firstRow updated))))))
             (\<lambda>updatedExpense.
                ret (updatedExpense,
                     (case file of
                        Uploaded url name \<Rightarrow> [ProcessReceiptOCR expenseId url]
                      | _ \<Rightarrow> []))))))"

text \<open>The deletion of a draft: the related rows first, then the expense.\<close>

definition deleteWhere :: "(db \<Rightarrow> db) \<Rightarrow> db \<Rightarrow> unit \<times> db" where
  "deleteWhere del s = ((), del s)"

definition deleteExpense :: "fault \<Rightarrow> user \<Rightarrow> nat \<Rightarrow> reply io" where
  "deleteExpense fault reqUser expenseId =
     andThen (query fault 0 (reading (selectOwnExpense expenseId (usr_id reqUser)))) (\<lambda>rows.
     case rows of
       [] \<Rightarrow> throw (AppError ''Expense not found'' 404)
     | expense # _ \<Rightarrow>
         if exp_status expense \<noteq> draft
         then throw (AppError ''Can only delete expenses in draft status'' 400)
         else
           andThen (transaction (
             andThen (query fault 1 (deleteWhere (\<lambda>s. s \<lparr> expense_comments :=
                filter (\<lambda>c. cmt_expense_id c \<noteq> expenseId) (expense_comments s) \<rparr>))) (\<lambda>_.
             andThen (query fault 2 (deleteWhere (\<lambda>s. s \<lparr> expense_audit_log :=
                filter (\<lambda>a. aud_expense_id a \<noteq> expenseId) (expense_audit_log s) \<rparr>))) (\<lambda>_.
             andThen (query fault 3 (deleteWhere (\<lambda>s. s \<lparr> ocr_queue :=
                filter (\<lambda>j. job_expense_id j \<noteq> expenseId) (ocr_queue s) \<rparr>))) (\<lambda>_.
             andThen (query fault 4 (deleteWhere (\<lambda>s. s \<lparr> notifications :=
                filter (\<lambda>n. ntf_related_expense_id n \<noteq> expenseId) (notifications s) \<rparr>))) (\<lambda>_.
             query fault 5 (deleteWhere (\<lambda>s. s \<lparr> expenses :=
                filter (\<lambda>e. exp_id e \<noteq> expenseId) (expenses s) \<rparr>))))))))
           (\<lambda>_. ret (None, [])))"

section \<open>Categorizer with its writes (categorizeMachine, feedbackLearning)\<close>

definition categorizeMachine :: "fault \<Rightarrow> mlResult option \<Rightarrow> nat \<Rightarrow> nat \<Rightarrow> expenseData
    \<Rightarrow> outcome io" where
  "categorizeMachine fault remote now expenseId expenseData =
     tryCatch (
       andThen (liftE (classify remote expenseData)) (\<lambda>out.
       andThen (query fault 0 (updateExpense expenseId (\<lambda>e. e
          \<lparr> exp_ml_suggested_category := Some (finalCategory out),
            exp_ml_confidence := finalConfidence out, exp_updated_at := now \<rparr>))) (\<lambda>_.
       andThen (query fault 1 (insertAuditForOwner expenseId (\<lambda>userId.
          \<lparr> aud_expense_id = expenseId, aud_user_id = userId, aud_action = ''ml_categorized'',
            aud_old_status = None, aud_new_status = None,
            aud_notes = Some (MlSuggestedNote (finalCategory out) (finalConfidence out)),
            aud_metadata = Some (MlMeta (finalCategory out) (finalConfidence out)
                                   (outMethod out) (combinedScores out)),
            aud_created_at = now \<rparr>))) (\<lambda>_.
       ret out))))
     (\<lambda>err.
       andThen (query fault 2 (insertAuditForOwner expenseId (\<lambda>userId.
          \<lparr> aud_expense_id = expenseId, aud_user_id = userId,
            aud_action = ''ml_categorization_failed'',
            aud_old_status = None, aud_new_status = None,
            aud_notes = Some (MlFailedNote (errorMessage err)),
            aud_metadata = Some (ErrorMeta (errorMessage err)),
            aud_created_at = now \<rparr>))) (\<lambda>_.
       throw err))"

text \<open>
  The request to the feedback endpoint: it is sent, and then it succeeds or fails
  (\<open>failure\<close> is the message of a failed or timed-out request).
\<close>

definition postFeedback :: "string option \<Rightarrow> feedback_request \<Rightarrow> unit io" where
  "postFeedback failure req =
     (\<lambda>s. (case failure of Some msg \<Rightarrow> Inl (Error msg) | None \<Rightarrow> Inr (),
            s \<lparr> feedback_requests := feedback_requests s @ [req] \<rparr>))"

definition feedbackLearning :: "fault \<Rightarrow> string option \<Rightarrow> nat \<Rightarrow> nat \<Rightarrow> string \<Rightarrow> unit io" where
  "feedbackLearning fault failure now expenseId userCorrectedCategory =
     tryCatch (
       andThen (query fault 0 (reading (selectExpense expenseId))) (\<lambda>rows.
       case rows of
         [] \<Rightarrow> throw (Error ''Expense not found'')
       | expense # _ \<Rightarrow>
           if nonEmptyStr (exp_ml_suggested_category expense)
              \<and> exp_ml_suggested_category expense \<noteq> Some userCorrectedCategory
           then
             andThen (postFeedback failure
                \<lparr> fb_expense_data =
                    \<lparr> ca_title = exp_title expense,
                      ca_description = exp_description expense,
                      ca_vendor = exp_vendor expense,
                      ca_amount = exp_amount expense \<rparr>,
                  fb_predicted_category = orEmpty (exp_ml_suggested_category expense),
                  fb_actual_category = userCorrectedCategory,
                  fb_confidence = exp_ml_confidence expense \<rparr>) (\<lambda>_.
             andThen (query fault 1 (insertAuditForOwner expenseId (\<lambda>userId.
                \<lparr> aud_expense_id = expenseId, aud_user_id = userId, aud_action = ''ml_feedback'',
                  aud_old_status = None, aud_new_status = None,
                  aud_notes = Some (FeedbackNote (orEmpty (exp_ml_suggested_category expense))
                                      userCorrectedCategory),
                  aud_metadata = Some (FeedbackMeta (orEmpty (exp_ml_suggested_category expense))
                                         userCorrectedCategory (exp_ml_confidence expense)),
                  aud_created_at = now \<rparr>))) (\<lambda>_.
             ret ()))
           else ret ()))
     (\<lambda>err. ret ())"

text \<open>
  Retraining reads the finalized expenses of the last six months (at most 1000, newest
  first), does nothing with fewer than 50 of them, and otherwise sends them to the
  remote trainer and stores the answer in \<^verbatim>\<open>system_settings\<close>, a table that is not part
  of the modelled state. Its errors are logged and thrown again. Six months are taken
  as 183 days, in seconds.
\<close>

definition trainingData :: "nat \<Rightarrow> db \<Rightarrow> expense list" where
  "trainingData now s =
     take 1000 (rev (sort_key exp_created_at
       (filter (\<lambda>e. (exp_status e = approved \<or> exp_status e = reimbursed)
                     \<and> now < exp_created_at e + 15811200) (expenses s))))"

definition trainMLModel :: "fault \<Rightarrow> string option \<Rightarrow> nat \<Rightarrow> unit io" where
  "trainMLModel fault trainerFailure now =
     andThen (query fault 0 (reading (trainingData now))) (\<lambda>rows.
     if length rows < 50 then ret ()
     else
       andThen (liftE (case trainerFailure of Some msg \<Rightarrow> Inl (Error msg) | None \<Rightarrow> Inr ()))
         (\<lambda>_. query fault 1 (\<lambda>s. ((), s))))"

section \<open>The operations of the core\<close>

text \<open>
  Every operation with its inputs (the faults it meets, the answers of the outside
  world, the time, the caller and the request), and the state it leaves.
\<close>

datatype operation =
    OpTransition fault nat nat user transition nat
  | OpCreate fault nat nat user expenseBody upload
  | OpUpdate fault nat user nat expenseBody upload
  | OpDelete fault user nat
  | OpProcessOCR fault provider nat nat "string option"
  | OpRetry "string option" "nat \<Rightarrow> fault \<times> provider" nat
  | OpClassify fault "mlResult option" nat nat expenseData
  | OpFeedback fault "string option" nat nat string
  | OpRetrain fault "string option" nat

definition execute :: "schema \<Rightarrow> (string \<Rightarrow> string option) \<Rightarrow> operation \<Rightarrow> db \<Rightarrow> db" where
  "execute sch toISODate op s =
     (case op of
        OpTransition fault rnd now reqUser t expenseId \<Rightarrow>
          snd (perform fault rnd now reqUser t expenseId s)
      | OpCreate fault newId now reqUser body file \<Rightarrow>
          snd (createExpense sch fault newId now reqUser body file s)
      | OpUpdate fault now reqUser expenseId body file \<Rightarrow>
          snd (updateExpenseRoute sch fault now reqUser expenseId body file s)
      | OpDelete fault reqUser expenseId \<Rightarrow>
          snd (deleteExpense fault reqUser expenseId s)
      | OpProcessOCR fault prov now expenseId receiptUrl \<Rightarrow>
          snd (processReceiptOCR fault prov toISODate now expenseId receiptUrl s)
      | OpRetry sweepFault envs now \<Rightarrow>
          snd (retryOCRProcessing sweepFault envs toISODate now s)
      | OpClassify fault remote now expenseId expenseData \<Rightarrow>
          snd (categorizeMachine fault remote now expenseId expenseData s)
      | OpFeedback fault failure now expenseId userCorrectedCategory \<Rightarrow>
          snd (feedbackLearning fault failure now expenseId userCorrectedCategory s)
      | OpRetrain fault trainerFailure now \<Rightarrow>
          snd (trainMLModel fault trainerFailure now s))"

text \<open>A second receipt for the sample expense, and a corrected suggestion.\<close>

definition lunchBody :: expenseBody where
  "lunchBody = \<lparr> bd_title = ''Team Lunch'', bd_description = None, bd_amount = ''85.50'',
       bd_currency = None, bd_expense_date = ''2025-01-15'',
       bd_vendor = Some ''Restaurante Central'', bd_category = ''meals'' \<rparr>"

definition secondReceipt :: upload where
  "secondReceipt = Uploaded ''https://bucket/receipts/1/b.png'' ''b.png''"

definition retriedDb :: db where
  "retriedDb = draftDb \<lparr> ocr_queue :=
       [lunchJob \<lparr> job_status := ocr_failed, job_attempts := 2,
                   job_error_message := Some ''Failed to extract text from receipt'' \<rparr>] \<rparr>"

definition suggestedDb :: db where
  "suggestedDb = draftDb \<lparr> expenses :=
       [lunchExpense \<lparr> exp_ml_suggested_category := Some ''meals'',
                       exp_ml_confidence := Some (19 / 70) \<rparr>] \<rparr>"

text \<open>The last defined value of a list of optional values.\<close>

fun lastSome :: "'a option list \<Rightarrow> 'a option" where
  "lastSome [] = None"
| "lastSome (x # xs) = (case lastSome xs of Some v \<Rightarrow> Some v | None \<Rightarrow> x)"

text \<open>
  The answers of the runtime's date reader on the only string the stub result makes the
  parser read as a date: an ISO calendar date reads as itself.
\<close>

definition stubDates :: "string \<Rightarrow> string option" where
  "stubDates = map_of [(''2025-01-20'', ''2025-01-20'')]"

section \<open>Properties of the categorizer\<close>

lemma map_of_objSet: "map_of (objSet kvs k v) = (map_of kvs)(k \<mapsto> v)"
  by (induction kvs) (auto simp: fun_upd_twist)

lemma objSet_nonempty: "objSet kvs k v \<noteq> []"
  by (cases kvs) (auto split: if_splits)

lemma reduceFrom_last_max:
  "\<forall>k \<in> set (a # bs). map_of obj k = Some (f k) \<Longrightarrow>
   \<exists>pre post. a # bs = pre @ reduceFrom obj a bs # post \<and>
      (\<forall>k \<in> set pre. f k \<le> f (reduceFrom obj a bs)) \<and>
      (\<forall>k \<in> set post. f k < f (reduceFrom obj a bs))"
proof (induction bs arbitrary: a)
  case Nil
  show ?case
    by (rule exI [of _ "[]"], rule exI [of _ "[]"]) simp
next
  case (Cons b bs)
  define a' where "a' = (if jsGt (map_of obj a) (map_of obj b) then a else b)"
  define r where "r = reduceFrom obj a' bs"
  have r: "reduceFrom obj a (b # bs) = r" by (simp add: r_def a'_def)
  have fa: "map_of obj a = Some (f a)" and fb: "map_of obj b = Some (f b)"
    using Cons.prems by auto
  have "\<forall>k \<in> set (a' # bs). map_of obj k = Some (f k)"
    using Cons.prems by (auto simp: a'_def)
  from Cons.IH [OF this] obtain pre post where
    split: "a' # bs = pre @ r # post" and
    le: "\<forall>k \<in> set pre. f k \<le> f r" and lt: "\<forall>k \<in> set post. f k < f r"
    unfolding r_def by blast
  have "\<exists>pre post. a # b # bs = pre @ r # post \<and>
      (\<forall>k \<in> set pre. f k \<le> f r) \<and> (\<forall>k \<in> set post. f k < f r)"
  proof (cases "f a > f b")
    case True
    then have a': "a' = a" using fa fb by (simp add: a'_def)
    show ?thesis
    proof (cases pre)
      case Nil
      with split a' have ra: "r = a" and pb: "post = bs" by auto
      have "a # b # bs = [] @ r # (b # post)" using ra pb by simp
      moreover have "\<forall>k \<in> set (b # post). f k < f r" using lt True ra by auto
      moreover have "\<forall>k \<in> set []. f k \<le> f r" by simp
      ultimately show ?thesis by blast
    next
      case (Cons x pre')
      with split a' have x: "x = a" and bs: "bs = pre' @ r # post" by auto
      have "f a \<le> f r" using le Cons x by auto
      then have fbr: "f b \<le> f r" using True by auto
      have "a # b # bs = (a # b # pre') @ r # post" using bs by simp
      moreover have "\<forall>k \<in> set (a # b # pre'). f k \<le> f r"
        using le Cons x fbr by auto
      ultimately show ?thesis using lt by blast
    qed
  next
    case False
    then have a': "a' = b" using fa fb by (simp add: a'_def)
    have "b \<in> set (pre @ [r])" using split a'
      by (cases pre) auto
    then have "f b \<le> f r" using le by auto
    then have far: "f a \<le> f r" using False by auto
    have "a # b # bs = (a # pre) @ r # post" using split a' by simp
    moreover have "\<forall>k \<in> set (a # pre). f k \<le> f r" using le far by auto
    ultimately show ?thesis using lt by blast
  qed
  then show ?case unfolding r .
qed


lemma reduceBest_last_max:
  assumes "obj \<noteq> []"
  shows "\<exists>best pre post v. reduceBest obj = Inr best \<and> map fst obj = pre @ best # post \<and>
           map_of obj best = Some v \<and>
           (\<forall>k \<in> set pre. \<exists>w. map_of obj k = Some w \<and> w \<le> v) \<and>
           (\<forall>k \<in> set post. \<exists>w. map_of obj k = Some w \<and> w < v)"
proof -
  obtain a bs where keys: "map fst obj = a # bs"
    using assms by (cases obj) auto
  define f where "f k = (case map_of obj k of Some v \<Rightarrow> v | None \<Rightarrow> 0)" for k
  have def: "map_of obj k = Some (f k)" if "k \<in> set (a # bs)" for k
  proof -
    from that have "k \<in> fst ` set obj" unfolding keys [symmetric] by simp
    then have "map_of obj k \<noteq> None" by (simp add: map_of_eq_None_iff)
    then show ?thesis by (auto simp: f_def)
  qed
  then have "\<forall>k \<in> set (a # bs). map_of obj k = Some (f k)" by blast
  from reduceFrom_last_max [OF this] obtain pre post where
    split: "a # bs = pre @ reduceFrom obj a bs # post" and
    le: "\<forall>k \<in> set pre. f k \<le> f (reduceFrom obj a bs)" and
    lt: "\<forall>k \<in> set post. f k < f (reduceFrom obj a bs)"
    by blast
  define best where "best = reduceFrom obj a bs"
  have rb: "reduceBest obj = Inr best" by (simp add: reduceBest_def keys best_def)
  have split': "map fst obj = pre @ best # post" using split keys by (simp add: best_def)
  have sets: "set (a # bs) = set pre \<union> {best} \<union> set post"
    unfolding keys [symmetric] split' by auto
  have "best \<in> set (a # bs)" unfolding sets by simp
  then have 1: "map_of obj best = Some (f best)" by (rule def)
  have 2: "\<forall>k \<in> set pre. \<exists>w. map_of obj k = Some w \<and> w \<le> f best"
  proof
    fix k assume k: "k \<in> set pre"
    then have "k \<in> set (a # bs)" unfolding sets by simp
    from def [OF this] le k show "\<exists>w. map_of obj k = Some w \<and> w \<le> f best"
      by (simp add: best_def)
  qed
  have 3: "\<forall>k \<in> set post. \<exists>w. map_of obj k = Some w \<and> w < f best"
  proof
    fix k assume k: "k \<in> set post"
    then have "k \<in> set (a # bs)" unfolding sets by simp
    from def [OF this] lt k show "\<exists>w. map_of obj k = Some w \<and> w < f best"
      by (simp add: best_def)
  qed
  show ?thesis
    by (rule exI [of _ best], rule exI [of _ pre], rule exI [of _ post], rule exI [of _ "f best"])
       (intro conjI; fact)
qed

lemma keywordHits_filter: "keywordHits text kws = length (filter (str_includes text) kws)"
proof -
  have "foldl (\<lambda>score keyword. if str_includes text keyword then score + 1 else score) n kws
        = n + length (filter (str_includes text) kws)" for n :: nat
    by (induction kws arbitrary: n) auto
  then show ?thesis by (simp add: keywordHits_def)
qed

text \<open>
  Values of the rounding: \<^verbatim>\<open>0.1\<close> is \<^verbatim>\<open>0x3FB999999999999A\<close>, \<^verbatim>\<open>0.1 + 0.2\<close> is
  \<^verbatim>\<open>0.30000000000000004\<close> and not the double \<^verbatim>\<open>0.3\<close>, a double is kept, and a tie goes
  to the even neighbour.
\<close>

lemma roundDouble_values:
  "roundDouble (1 / 10) = 7205759403792794 / 2 ^ 56"
  "roundDouble (3 / 10) = 5404319552844595 / 2 ^ 54"
  "fadd (roundDouble (1 / 10)) (roundDouble (2 / 10)) = 5404319552844596 / 2 ^ 54"
  "roundDouble (1 / 3) = 6004799503160661 / 2 ^ 54"
  "roundDouble (5404319552844595 / 2 ^ 54) = 5404319552844595 / 2 ^ 54"
  "roundDouble (2 ^ 53 + 1) = 2 ^ 53"
  "roundDouble (2 ^ 53 + 3) = 2 ^ 53 + 4"
  "roundDouble (- (1 / 10)) = - roundDouble (1 / 10)"
  by code_simp+

text \<open>
  The rounding is to a nearest double: for a positive \<open>x\<close> the scaled \<open>x\<close> has 53 bits
  before the point, the result is an integer of at most 53 bits (or \<open>2 ^ 53\<close>) at that
  scale, and it is within half a unit of the last place of \<open>x\<close>. Rounding is symmetric
  and keeps a positive number positive.
\<close>

lemma roundTiesToEven_near: "\<bar>of_int (roundTiesToEven x) - x\<bar> \<le> 1 / 2"
proof -
  have 1: "of_int \<lfloor>x\<rfloor> \<le> x" by simp
  have 2: "x < of_int \<lfloor>x\<rfloor> + 1" by linarith
  show ?thesis using 1 2 by (auto simp: roundTiesToEven_def Let_def abs_le_iff)
qed

lemma roundTiesToEven_range:
  assumes "of_int a \<le> x" "x < of_int b"
  shows "a \<le> roundTiesToEven x" "roundTiesToEven x \<le> b"
proof -
  have 1: "a \<le> \<lfloor>x\<rfloor>" using assms(1) by (simp add: le_floor_iff)
  have 2: "\<lfloor>x\<rfloor> < b" using assms(2) by (simp add: floor_less_iff)
  show "a \<le> roundTiesToEven x" using 1 by (simp add: roundTiesToEven_def Let_def)
  show "roundTiesToEven x \<le> b" using 2 by (simp add: roundTiesToEven_def Let_def)
qed

lemma quotient_bounds:
  fixes p q :: int
  assumes p: "0 < p" and q: "0 < q"
  shows "(2::rat) powi (bitlen p - bitlen q - 1) \<le> of_int p / of_int q"
    and "of_int p / of_int q < (2::rat) powi (bitlen p - bitlen q + 1)"
proof -
  from bitlen_bounds [OF p] have lp: "2 ^ nat (bitlen p - 1) \<le> p" and up: "p < 2 ^ nat (bitlen p)" by simp_all
  from bitlen_bounds [OF q] have lq: "2 ^ nat (bitlen q - 1) \<le> q" and uq: "q < 2 ^ nat (bitlen q)" by simp_all
  have bp: "1 \<le> bitlen p" using p by (simp add: bitlen_alt_def)
  have bq: "1 \<le> bitlen q" using q by (simp add: bitlen_alt_def)
  have cast: "(of_int (2 ^ n) :: rat) = 2 ^ n" for n by simp
  have 1: "(2::rat) powi (bitlen p - 1) \<le> of_int p"
  proof -
    have "(of_int (2 ^ nat (bitlen p - 1)) :: rat) \<le> of_int p" using lp by (simp only: of_int_le_iff)
    then show ?thesis using bp by (simp add: power_int_def)
  qed
  have 2: "(of_int q :: rat) < 2 powi (bitlen q)"
  proof -
    have "(of_int q :: rat) < of_int (2 ^ nat (bitlen q))" using uq by (simp only: of_int_less_iff)
    then show ?thesis using bq by (simp add: power_int_def)
  qed
  have 3: "(of_int p :: rat) < 2 powi (bitlen p)"
  proof -
    have "(of_int p :: rat) < of_int (2 ^ nat (bitlen p))" using up by (simp only: of_int_less_iff)
    then show ?thesis using bp by (simp add: power_int_def)
  qed
  have 4: "(2::rat) powi (bitlen q - 1) \<le> of_int q"
  proof -
    have "(of_int (2 ^ nat (bitlen q - 1)) :: rat) \<le> of_int q" using lq by (simp only: of_int_le_iff)
    then show ?thesis using bq by (simp add: power_int_def)
  qed
  have pos: "(0::rat) < 2 powi k" for k by simp
  have "bitlen p - bitlen q - 1 = (bitlen p - 1) - bitlen q" by simp
  then have "(2::rat) powi (bitlen p - bitlen q - 1) = 2 powi ((bitlen p - 1) - bitlen q)"
    by (rule arg_cong)
  also have "\<dots> = 2 powi (bitlen p - 1) / 2 powi (bitlen q)"
    by (rule power_int_diff) simp
  also have "\<dots> \<le> of_int p / 2 powi (bitlen q)"
    using 1 by (simp add: divide_right_mono)
  also have "\<dots> \<le> of_int p / of_int q"
    using 2 p q by (simp add: divide_left_mono)
  finally show "(2::rat) powi (bitlen p - bitlen q - 1) \<le> of_int p / of_int q" .
  have "of_int p / of_int q < (2::rat) powi (bitlen p) / of_int q"
    using 3 q by (simp add: divide_strict_right_mono)
  also have "\<dots> \<le> 2 powi (bitlen p) / 2 powi (bitlen q - 1)"
  proof (rule divide_left_mono [OF 4])
    show "(0::rat) \<le> 2 powi bitlen p" by simp
    have "(0::rat) < of_int q" using q by simp
    then show "(0::rat) < of_int q * 2 powi (bitlen q - 1)"
      using pos [of "bitlen q - 1"] by (rule mult_pos_pos)
  qed
  also have "\<dots> = 2 powi (bitlen p - (bitlen q - 1))"
    by (rule power_int_diff [symmetric]) simp
  also have "bitlen p - (bitlen q - 1) = bitlen p - bitlen q + 1" by simp
  finally show "of_int p / of_int q < (2::rat) powi (bitlen p - bitlen q + 1)" .
qed

lemma ulpExponent_mantissa:
  assumes "0 < x"
  shows "2 ^ 52 \<le> x / 2 powi (ulpExponent x)" "x / 2 powi (ulpExponent x) < 2 ^ 53"
proof -
  obtain p q where pq: "quotient_of x = (p, q)" by (cases "quotient_of x")
  have q: "0 < q" using pq by (rule quotient_of_denom_pos)
  have x: "x = of_int p / of_int q" using pq by (rule quotient_of_div)
  have p: "0 < p" using assms q unfolding x by (simp add: zero_less_divide_iff)
  define d where "d = bitlen p - bitlen q"
  have lo: "(2::rat) powi (d - 1) \<le> x" and hi: "x < 2 powi (d + 1)"
    unfolding x d_def using quotient_bounds [OF p q] by simp_all
  define y where "y = x / 2 powi d"
  have sc: "x / 2 powi (d - n) = y * 2 powi n" for n :: int
    by (simp add: power_int_diff y_def)
  have p52: "(2::rat) powi 52 = 2 ^ 52" and p53: "(2::rat) powi 53 = 2 ^ 53"
    by (simp_all add: power_int_def)
  have "2 ^ 52 \<le> x / 2 powi (ulpExponent x) \<and> x / 2 powi (ulpExponent x) < 2 ^ 53"
  proof (cases "2 powi d \<le> x")
    case True
    then have e: "ulpExponent x = d - 52" by (simp add: ulpExponent_def pq d_def)
    have 1: "1 \<le> y" using True by (simp add: le_divide_eq y_def)
    have "x < 2 powi d * 2" using hi by (simp add: power_int_add)
    then have 2: "y < 2" by (simp add: divide_less_eq mult.commute y_def)
    show ?thesis unfolding e sc p52 using 1 2 by simp
  next
    case False
    then have e: "ulpExponent x = d - 53" by (simp add: ulpExponent_def pq d_def)
    have 2: "y < 1" using False by (simp add: divide_less_eq y_def)
    have "2 powi d / 2 \<le> x" using lo by (simp add: power_int_diff)
    then have 1: "1 / 2 \<le> y" by (simp add: le_divide_eq y_def)
    show ?thesis unfolding e sc p53 using 1 2 by simp
  qed
  then show "2 ^ 52 \<le> x / 2 powi (ulpExponent x)" "x / 2 powi (ulpExponent x) < 2 ^ 53"
    by simp_all
qed

lemma roundDouble_nearest:
  assumes "0 < x"
  shows "\<exists>m. roundDouble x = of_int m * 2 powi (ulpExponent x)
            \<and> 2 ^ 52 \<le> m \<and> m \<le> 2 ^ 53
            \<and> \<bar>roundDouble x - x\<bar> \<le> 2 powi (ulpExponent x) / 2"
proof -
  define e where "e = ulpExponent x"
  define m where "m = roundTiesToEven (x / 2 powi e)"
  have rd: "roundDouble x = of_int m * 2 powi e"
    using assms by (simp add: roundDouble_def Let_def m_def e_def)
  from ulpExponent_mantissa [OF assms]
  have lo: "of_int (2 ^ 52) \<le> x / 2 powi e" and hi: "x / 2 powi e < of_int (2 ^ 53)"
    by (simp_all add: e_def)
  from roundTiesToEven_range [OF lo hi] have m: "2 ^ 52 \<le> m" "m \<le> 2 ^ 53"
    by (simp_all add: m_def)
  have "\<bar>of_int m - x / 2 powi e\<bar> \<le> 1 / 2" unfolding m_def by (rule roundTiesToEven_near)
  then have "\<bar>of_int m - x / 2 powi e\<bar> * 2 powi e \<le> 1 / 2 * 2 powi e"
    by (rule mult_right_mono) simp
  moreover have "\<bar>of_int m - x / 2 powi e\<bar> * 2 powi e = \<bar>of_int m * 2 powi e - x\<bar>"
  proof -
    have "\<bar>of_int m - x / 2 powi e\<bar> * 2 powi e = \<bar>(of_int m - x / 2 powi e) * 2 powi e\<bar>"
      by (simp add: abs_mult)
    also have "(of_int m - x / 2 powi e) * 2 powi e = of_int m * 2 powi e - x"
      by (simp add: algebra_simps)
    finally show ?thesis .
  qed
  ultimately have near: "\<bar>roundDouble x - x\<bar> \<le> 2 powi e / 2" by (simp add: rd)
  show ?thesis
    by (rule exI [of _ m]) (use rd m near in \<open>simp add: e_def\<close>)
qed

lemma roundDouble_pos: "0 < x \<Longrightarrow> 0 < roundDouble x"
proof -
  assume "0 < x"
  from roundDouble_nearest [OF this] obtain m where
    rd: "roundDouble x = of_int m * 2 powi (ulpExponent x)" and m: "2 ^ 52 \<le> m" by blast
  from m have "0 < m" by simp
  then have "(0::rat) < of_int m" by simp
  then show ?thesis unfolding rd by (rule mult_pos_pos) simp
qed

lemma roundDouble_minus: "roundDouble (- x) = - roundDouble x"
  by (simp add: roundDouble_def Let_def sgn_minus)

text \<open>A double is rounded to itself, so reading doubles as doubles changes nothing.\<close>

lemma roundTiesToEven_of_int: "roundTiesToEven (of_int n) = n"
  by (simp add: roundTiesToEven_def)

lemma exponent_unique:
  fixes x :: rat and e1 e2 :: int
  assumes "2 ^ 52 \<le> x / 2 powi e1" "x / 2 powi e1 < 2 ^ 53"
      and "2 ^ 52 \<le> x / 2 powi e2" "x / 2 powi e2 < 2 ^ 53"
  shows "e1 = e2"
proof -
  have less: False
    if a: "2 ^ 52 \<le> x / 2 powi b" and c: "x / 2 powi a < 2 ^ 53" and ab: "a < b"
    for a b :: int
  proof -
    have pos: "(0::rat) < 2 powi b" by simp
    have "(2::rat) powi (a + 1) \<le> 2 powi b" using ab by (intro power_int_increasing) simp_all
    then have "(2::rat) powi a * 2 \<le> 2 powi b" by (simp add: power_int_add)
    moreover have "2 ^ 52 * 2 powi b \<le> x" using a pos by (simp add: le_divide_eq)
    ultimately have "2 ^ 52 * (2 powi a * 2) \<le> x"
      by (meson mult_left_mono order_trans zero_le_numeral zero_le_power)
    then have "2 ^ 53 * 2 powi a \<le> x" by simp
    then have "2 ^ 53 \<le> x / 2 powi a" by (simp add: le_divide_eq)
    with c show False by simp
  qed
  show ?thesis
    using less [of e2 e1] less [of e1 e2] assms by (cases e1 e2 rule: linorder_cases) auto
qed

lemma roundDouble_idem: "roundDouble (roundDouble x) = roundDouble x"
proof -
  have pos: "roundDouble (roundDouble x) = roundDouble x" if x: "0 < x" for x
  proof -
    define e where "e = ulpExponent x"
    from roundDouble_nearest [OF x] obtain m where
      rd: "roundDouble x = of_int m * 2 powi e" and lo: "2 ^ 52 \<le> m" and hi: "m \<le> 2 ^ 53"
      unfolding e_def by blast
    define y where "y = roundDouble x"
    have y: "0 < y" unfolding y_def using x by (rule roundDouble_pos)
    note my = ulpExponent_mantissa [OF y]
    show ?thesis
    proof (cases "m = 2 ^ 53")
      case True
      have ye: "y / 2 powi (e + 1) = 2 ^ 52"
        unfolding y_def rd True by (simp add: power_int_add)
      have "ulpExponent y = e + 1"
        by (rule exponent_unique [OF my]) (simp_all add: ye)
      then have "roundDouble y = of_int (roundTiesToEven (2 ^ 52)) * 2 powi (e + 1)"
        using y ye by (simp add: roundDouble_def Let_def)
      also have "roundTiesToEven (2 ^ 52) = 2 ^ 52"
        using roundTiesToEven_of_int [of "2 ^ 52"] by simp
      also have "of_int (2 ^ 52) * 2 powi (e + 1) = y"
        unfolding y_def rd True by (simp add: power_int_add)
      finally show ?thesis unfolding y_def .
    next
      case False
      with hi have hi': "m < 2 ^ 53" by simp
      have ye: "y / 2 powi e = of_int m" unfolding y_def rd by simp
      have "(of_int (2 ^ 52) :: rat) \<le> of_int m" using lo by (simp only: of_int_le_iff)
      moreover have "(of_int m :: rat) < of_int (2 ^ 53)" using hi' by (simp only: of_int_less_iff)
      ultimately have "ulpExponent y = e"
        by (intro exponent_unique [OF my]) (simp_all add: ye)
      then have "roundDouble y = of_int (roundTiesToEven (of_int m)) * 2 powi e"
        using y ye by (simp add: roundDouble_def Let_def)
      then show ?thesis unfolding y_def by (simp add: roundTiesToEven_of_int rd)
    qed
  qed
  show ?thesis
  proof (cases x "0 :: rat" rule: linorder_cases)
    case less
    then have "0 < - x" by simp
    from pos [OF this] show ?thesis by (simp add: roundDouble_minus)
  next
    case equal
    then show ?thesis by (simp add: roundDouble_def)
  next
    case greater
    then show ?thesis by (rule pos)
  qed
qed

lemma asDoubles_idem: "asDoubles (asDoubles obj) = asDoubles obj"
  by (induction obj) (auto simp: asDoubles_def roundDouble_idem)

lemma roundDouble_nonneg: "0 \<le> x \<Longrightarrow> 0 \<le> roundDouble x"
  using roundDouble_pos [of x] by (cases "x = 0") (simp_all add: roundDouble_def less_imp_le)

lemma map_of_asDoubles: "map_of (asDoubles obj) c = map_option roundDouble (map_of obj c)"
  by (induction obj) (auto simp: asDoubles_def)

text \<open>
  For each hint, half the hint is the same double whether it is computed as the average
  with a score \<^verbatim>\<open>0\<close> or as the product with \<^verbatim>\<open>0.5\<close>.
\<close>

lemma halves:
  "fdiv (fadd 0 (roundDouble (1 / 10))) 2 = fmul (roundDouble (1 / 10)) (roundDouble (1 / 2))"
  "fdiv (fadd 0 (roundDouble (2 / 10))) 2 = fmul (roundDouble (2 / 10)) (roundDouble (1 / 2))"
  "fdiv (fadd 0 (roundDouble (3 / 10))) 2 = fmul (roundDouble (3 / 10)) (roundDouble (1 / 2))"
  "fdiv (fadd 0 (roundDouble (4 / 10))) 2 = fmul (roundDouble (4 / 10)) (roundDouble (1 / 2))"
  by code_simp+

lemma categorizeByAmount_f64_hints:
  "distinct (map fst (categorizeByAmount_f64 amt))"
  "categorizeByAmount_f64 amt \<noteq> []"
  "\<forall>(k, h) \<in> set (categorizeByAmount_f64 amt). 0 < h"
  "\<forall>(k, h) \<in> set (categorizeByAmount_f64 amt).
      fdiv (fadd 0 h) 2 = fmul h (roundDouble (1 / 2))"
proof -
  show "distinct (map fst (categorizeByAmount_f64 amt))"
    by (simp add: categorizeByAmount_f64_def Let_def)
  show "categorizeByAmount_f64 amt \<noteq> []"
    by (simp add: categorizeByAmount_f64_def Let_def)
  show "\<forall>(k, h) \<in> set (categorizeByAmount_f64 amt). 0 < h"
    unfolding categorizeByAmount_f64_def Let_def by (auto intro!: roundDouble_pos)
  show "\<forall>(k, h) \<in> set (categorizeByAmount_f64 amt).
      fdiv (fadd 0 h) 2 = fmul h (roundDouble (1 / 2))"
    unfolding categorizeByAmount_f64_def Let_def
    using halves by (auto simp del: divide_eq_eq_numeral1)
qed

lemma map_of_combineStep_f64:
  "fdiv (fadd 0 h) 2 = fmul h (roundDouble (1 / 2)) \<Longrightarrow>
   map_of (combineStep_f64 cs (c, h)) =
     (map_of cs)(c \<mapsto> (case map_of cs c of
                         Some s \<Rightarrow> fdiv (fadd s h) 2
                       | None \<Rightarrow> fmul h (roundDouble (1 / 2))))"
  by (auto simp: combineStep_f64_def truthy_def map_of_objSet split: option.splits)

lemma map_of_combineScores_f64:
  "distinct (map fst hints) \<Longrightarrow>
   \<forall>(k, h) \<in> set hints. fdiv (fadd 0 h) 2 = fmul h (roundDouble (1 / 2)) \<Longrightarrow>
   map_of (combineScores_f64 cs hints) c =
     (case map_of hints c of
        None \<Rightarrow> map_of cs c
      | Some h \<Rightarrow> (case map_of cs c of
                     Some s \<Rightarrow> Some (fdiv (fadd s h) 2)
                   | None \<Rightarrow> Some (fmul h (roundDouble (1 / 2)))))"
  unfolding combineScores_f64_def
proof (induction hints arbitrary: cs)
  case Nil
  then show ?case by simp
next
  case (Cons p hints)
  obtain k h where p: "p = (k, h)" by (cases p)
  from Cons.prems have d: "distinct (map fst hints)" and nk: "k \<notin> fst ` set hints"
    by (auto simp: p)
  have hv: "fdiv (fadd 0 h) 2 = fmul h (roundDouble (1 / 2))"
    and hvs: "\<forall>(k, h) \<in> set hints. fdiv (fadd 0 h) 2 = fmul h (roundDouble (1 / 2))"
    using Cons.prems(2) by (auto simp: p)
  have nk': "map_of hints k = None" using nk by (simp add: map_of_eq_None_iff)
  show ?case
    using Cons.IH [OF d hvs, of "combineStep_f64 cs (k, h)"] nk'
    by (auto simp: p map_of_combineStep_f64 [OF hv] split: option.splits)
qed

text \<open>
  Claim C3, in the arithmetic of the runtime. For step-1/2 scores in the range the
  categorizer works with (none negative) and the hints of any amount: the combined score
  of a category is the average of score and hint when both are present (the sum and the
  division by 2 rounded to doubles), the hint times \<^verbatim>\<open>0.5\<close> when only the hint is, and
  the score otherwise; the reported confidence is the greatest combined score, and the
  final category is a category reaching it when it exceeds the double \<^verbatim>\<open>0.3\<close>, and the
  step-1/2 category otherwise.
\<close>

theorem blend_f64_combines_and_selects:
  assumes nonneg: "\<forall>(k, s) \<in> set (scores m). 0 \<le> s"
  shows "\<exists>out best v.
     blend_f64 m amt = Inr out \<and>
     (\<forall>c. map_of (combinedScores out) c =
        (case map_of (categorizeByAmount_f64 amt) c of
           None \<Rightarrow> map_of (asDoubles (scores m)) c
         | Some h \<Rightarrow> (case map_of (asDoubles (scores m)) c of
                        Some s \<Rightarrow> Some (fdiv (fadd s h) 2)
                      | None \<Rightarrow> Some (fmul h (roundDouble (1 / 2)))))) \<and>
     map_of (combinedScores out) best = Some v \<and>
     (\<forall>c w. map_of (combinedScores out) c = Some w \<longrightarrow> w \<le> v) \<and>
     finalConfidence out = Some v \<and>
     finalCategory out = (if roundDouble (3 / 10) < v then best else category m)"
proof -
  define hints where "hints = categorizeByAmount_f64 amt"
  define sc where "sc = asDoubles (scores m)"
  define combined where "combined = combineScores_f64 sc hints"
  note hp = categorizeByAmount_f64_hints [of amt, folded hints_def]
  have dh: "distinct (map fst hints)" and neh: "hints \<noteq> []"
    by (rule hp(1), rule hp(2))
  have mo: "map_of combined c =
        (case map_of hints c of
           None \<Rightarrow> map_of sc c
         | Some h \<Rightarrow> (case map_of sc c of
                        Some s \<Rightarrow> Some (fdiv (fadd s h) 2)
                      | None \<Rightarrow> Some (fmul h (roundDouble (1 / 2)))))" for c
    unfolding combined_def by (rule map_of_combineScores_f64 [OF dh hp(4)])
  obtain c0 h0 where c0: "map_of hints c0 = Some h0"
  proof (cases hints)
    case Nil
    with neh show ?thesis by simp
  next
    case (Cons p ps)
    then have "map_of hints (fst p) = Some (snd p)" by simp
    then show ?thesis using that by blast
  qed
  have h0: "0 < h0" using hp(3) map_of_SomeD [OF c0] by auto
  have half: "0 < roundDouble (1 / 2)" by (rule roundDouble_pos) simp
  have s0: "0 \<le> s" if "map_of sc c = Some s" for c s
  proof -
    from that obtain s' where s': "map_of (scores m) c = Some s'" and s: "s = roundDouble s'"
      by (auto simp: sc_def map_of_asDoubles)
    from nonneg map_of_SomeD [OF s'] have "0 \<le> s'" by auto
    then show ?thesis unfolding s by (rule roundDouble_nonneg)
  qed
  obtain w0 where w0: "map_of combined c0 = Some w0" and w0pos: "0 < w0"
  proof (cases "map_of sc c0")
    case None
    then have "map_of combined c0 = Some (fmul h0 (roundDouble (1 / 2)))" by (simp add: mo c0)
    moreover have "0 < fmul h0 (roundDouble (1 / 2))"
    proof -
      have "0 < h0 * roundDouble (1 / 2)" using h0 half by (rule mult_pos_pos)
      then show ?thesis unfolding fmul_def by (rule roundDouble_pos)
    qed
    ultimately show ?thesis using that by blast
  next
    case (Some s)
    then have "map_of combined c0 = Some (fdiv (fadd s h0) 2)" by (simp add: mo c0)
    moreover have "0 < fdiv (fadd s h0) 2"
    proof -
      have "0 < s + h0" using h0 s0 [OF Some] by simp
      then have "0 < fadd s h0" unfolding fadd_def by (rule roundDouble_pos)
      then have "0 < fadd s h0 / 2" by simp
      then show ?thesis unfolding fdiv_def by (rule roundDouble_pos)
    qed
    ultimately show ?thesis using that by blast
  qed
  have ne: "combined \<noteq> []" using w0 by auto
  from reduceBest_last_max [OF ne] obtain best pre post v where
    rb: "reduceBest combined = Inr best" and split: "map fst combined = pre @ best # post" and
    v: "map_of combined best = Some v" and
    le: "\<forall>k \<in> set pre. \<exists>w. map_of combined k = Some w \<and> w \<le> v" and
    lt: "\<forall>k \<in> set post. \<exists>w. map_of combined k = Some w \<and> w < v"
    by blast
  have mx: "w \<le> v" if "map_of combined c = Some w" for c w
  proof -
    from that have "map_of combined c \<noteq> None" by simp
    then have "c \<in> set (map fst combined)" by (simp add: map_of_eq_None_iff)
    then have "c \<in> set pre \<or> c = best \<or> c \<in> set post"
      unfolding split by auto
    then show ?thesis
    proof (elim disjE)
      assume "c \<in> set pre"
      with le that show ?thesis by auto
    next
      assume "c = best"
      with v that show ?thesis by simp
    next
      assume "c \<in> set post"
      with lt that show ?thesis by auto
    qed
  qed
  have vpos: "0 < v" using mx [OF w0] w0pos by simp
  define out where "out = \<lparr> finalCategory =
        (if jsGt (Some v) (Some (roundDouble (3 / 10))) then best else category m),
      finalConfidence = Some v, outMethod = meth m, combinedScores = combined \<rparr>"
  have res: "blend_f64 m amt = Inr out"
    using vpos
    by (simp add: blend_f64_def hints_def [symmetric] sc_def [symmetric]
        combined_def [symmetric] rb v jsOr_def truthy_def out_def)
  have 1: "\<forall>c. map_of (combinedScores out) c =
        (case map_of (categorizeByAmount_f64 amt) c of
           None \<Rightarrow> map_of (asDoubles (scores m)) c
         | Some h \<Rightarrow> (case map_of (asDoubles (scores m)) c of
                        Some s \<Rightarrow> Some (fdiv (fadd s h) 2)
                      | None \<Rightarrow> Some (fmul h (roundDouble (1 / 2)))))"
    using mo [unfolded hints_def sc_def] by (simp add: out_def)
  have 2: "map_of (combinedScores out) best = Some v" using v by (simp add: out_def)
  have 3: "\<forall>c w. map_of (combinedScores out) c = Some w \<longrightarrow> w \<le> v"
    using mx by (simp add: out_def)
  have 4: "finalConfidence out = Some v" by (simp add: out_def)
  have 5: "finalCategory out = (if roundDouble (3 / 10) < v then best else category m)"
    by (simp add: out_def)
  show ?thesis
    by (rule exI [of _ out], rule exI [of _ best], rule exI [of _ v]) (intro conjI; fact)
qed


theorem blend_f64_combines_and_selects_witness:
  "\<exists>out best v.
     blend_f64 remoteMeals 50 = Inr out \<and>
     (\<forall>c. map_of (combinedScores out) c =
        (case map_of (categorizeByAmount_f64 50) c of
           None \<Rightarrow> map_of (asDoubles (scores remoteMeals)) c
         | Some h \<Rightarrow> (case map_of (asDoubles (scores remoteMeals)) c of
                        Some s \<Rightarrow> Some (fdiv (fadd s h) 2)
                      | None \<Rightarrow> Some (fmul h (roundDouble (1 / 2)))))) \<and>
     map_of (combinedScores out) best = Some v \<and>
     (\<forall>c w. map_of (combinedScores out) c = Some w \<longrightarrow> w \<le> v) \<and>
     finalConfidence out = Some v \<and>
     finalCategory out = (if roundDouble (3 / 10) < v then best else category remoteMeals)"
proof -
  have "\<forall>(k, s) \<in> set (scores remoteMeals). 0 \<le> s"
    by (simp add: remoteMeals_def)
  then show ?thesis by (rule blend_f64_combines_and_selects)
qed

text \<open>
  The sample answer at amount 50: the combined score of meals is \<^verbatim>\<open>0.30000000000000004\<close>,
  which exceeds the double \<^verbatim>\<open>0.3\<close>, so the final category is the arg-max, meals, and not
  the category of the remote classifier. In exact arithmetic the score is \<^verbatim>\<open>3/10\<close> and
  the category of the remote classifier is kept.
\<close>

lemma blend_f64_example:
  "blend_f64 remoteMeals 50 = Inr \<lparr> finalCategory = ''meals'',
       finalConfidence = Some (5404319552844596 / 2 ^ 54), outMethod = ''machine-learning'',
       combinedScores = [(''software'', 1 / 4), (''meals'', 5404319552844596 / 2 ^ 54),
          (''transportation'', 5404319552844595 / 2 ^ 55),
          (''office_supplies'', 3602879701896397 / 2 ^ 56)] \<rparr>
   \<and> roundDouble (3 / 10) = 5404319552844595 / 2 ^ 54
   \<and> blend remoteMeals 50 = Inr \<lparr> finalCategory = ''software'',
       finalConfidence = Some (3 / 10), outMethod = ''machine-learning'',
       combinedScores = [(''software'', 1 / 4), (''meals'', 3 / 10),
          (''transportation'', 3 / 20), (''office_supplies'', 1 / 20)] \<rparr>"
  by code_simp

text \<open>
  The same on the rule-based path: the run returns travel, where exact arithmetic keeps
  meals. For the worked example of the spec both agree on meals; the confidence of the
  run is the double \<^verbatim>\<open>0.27142857142857146\<close>.
\<close>

lemma classify_f64_examples:
  "classify_f64 None tripDinner = Inr \<lparr> finalCategory = ''travel'',
       finalConfidence = Some (5404319552844596 / 2 ^ 54), outMethod = ''rule-based'',
       combinedScores =
          [(''meals'', roundDouble (3 / 14)),
           (''transportation'', roundDouble (1 / 15)),
           (''accommodation'', fdiv (fadd (roundDouble (1 / 11)) (roundDouble (3 / 10))) 2),
           (''office_supplies'', 0), (''software'', 0),
           (''training'', 3602879701896397 / 2 ^ 55),
           (''marketing'', 0),
           (''travel'', 5404319552844596 / 2 ^ 54)] \<rparr>"
  "map_option finalCategory (case classify None tripDinner of Inl e \<Rightarrow> None | Inr out \<Rightarrow> Some out)
     = Some ''meals''"
  "classify_f64 None teamLunch = Inr \<lparr> finalCategory = ''meals'',
       finalConfidence = Some (2444811226286841 / 2 ^ 53), outMethod = ''rule-based'',
       combinedScores =
          [(''meals'', 2444811226286841 / 2 ^ 53),
           (''transportation'', 5404319552844595 / 2 ^ 55),
           (''accommodation'', 0),
           (''office_supplies'', 3602879701896397 / 2 ^ 56),
           (''software'', 0), (''training'', 0), (''marketing'', 0), (''travel'', 0)] \<rparr>"
  "(27142857142857146 :: rat) / 10 ^ 17 - 1 / 10 ^ 17 < 2444811226286841 / 2 ^ 53"
  "(2444811226286841 :: rat) / 2 ^ 53 < 27142857142857146 / 10 ^ 17 + 1 / 10 ^ 17"
  by code_simp+

text \<open>
  Claim C4, as the code has it. The rule-based classifier never raises. Each category's
  score is the number of its keywords that occur in the lower-cased text
  \<^verbatim>\<open>title + " " + description + " " + vendor\<close>, divided by the length of its keyword
  list. The confidence is the greatest score, the winner is the last category in the
  enumeration order that reaches it (every later category scores strictly less), and the
  category returned is \<^verbatim>\<open>other\<close> when that score is \<^verbatim>\<open>0\<close>.
\<close>

theorem categorizeByRules_last_argmax:
  "\<exists>r best pre post v.
     categorizeByRules d = Inr r \<and>
     scores r = map (\<lambda>(c, kws). (c, of_nat (length (filter (str_includes (ruleText d)) kws))
                                      / of_nat (length kws))) categoryRules \<and>
     map fst categoryRules = pre @ best # post \<and>
     map_of (scores r) best = Some v \<and>
     (\<forall>c \<in> set pre. \<exists>w. map_of (scores r) c = Some w \<and> w \<le> v) \<and>
     (\<forall>c \<in> set post. \<exists>w. map_of (scores r) c = Some w \<and> w < v) \<and>
     confidence r = Some v \<and>
     category r = (if 0 < v then best else ''other'')"
proof -
  define scs where "scs = ruleScores (ruleText d)"
  have ne: "scs \<noteq> []" by (simp add: scs_def ruleScores_def categoryRules_def)
  have keys: "map fst scs = map fst categoryRules"
    by (simp add: scs_def ruleScores_def case_prod_unfold comp_def)
  have sc: "scs = map (\<lambda>(c, kws). (c, of_nat (length (filter (str_includes (ruleText d)) kws))
                                      / of_nat (length kws))) categoryRules"
    by (simp add: scs_def ruleScores_def ruleScore_def keywordHits_filter)
  from reduceBest_last_max [OF ne] obtain best pre post v where
    rb: "reduceBest scs = Inr best" and split: "map fst scs = pre @ best # post" and
    v: "map_of scs best = Some v" and
    le: "\<forall>k \<in> set pre. \<exists>w. map_of scs k = Some w \<and> w \<le> v" and
    lt: "\<forall>k \<in> set post. \<exists>w. map_of scs k = Some w \<and> w < v"
    by blast
  define r where "r = \<lparr> category = (if jsGt (Some v) (Some 0) then best else ''other''),
       confidence = Some v, meth = ''rule-based'', scores = scs \<rparr>"
  have res: "categorizeByRules d = Inr r"
    by (simp add: categorizeByRules_def scs_def [symmetric] rb v r_def)
  have "scores r = scs" and 6: "confidence r = Some v"
    and 7: "category r = (if 0 < v then best else ''other'')"
    by (simp_all add: r_def)
  then have 1: "scores r = map (\<lambda>(c, kws). (c, of_nat (length (filter (str_includes (ruleText d)) kws))
                                      / of_nat (length kws))) categoryRules"
    and 2: "map_of (scores r) best = Some v"
    and 3: "\<forall>c \<in> set pre. \<exists>w. map_of (scores r) c = Some w \<and> w \<le> v"
    and 4: "\<forall>c \<in> set post. \<exists>w. map_of (scores r) c = Some w \<and> w < v"
    and 5: "map fst categoryRules = pre @ best # post"
    using sc v le lt split keys by simp_all
  show ?thesis
    by (rule exI [of _ r], rule exI [of _ best], rule exI [of _ pre], rule exI [of _ post],
        rule exI [of _ v])
       (intro conjI; fact)
qed


theorem categorizeByRules_last_argmax_witness:
  "\<exists>r best pre post v.
     categorizeByRules lunchPaper = Inr r \<and>
     scores r = map (\<lambda>(c, kws). (c, of_nat (length (filter (str_includes (ruleText lunchPaper)) kws))
                                      / of_nat (length kws))) categoryRules \<and>
     map fst categoryRules = pre @ best # post \<and>
     map_of (scores r) best = Some v \<and>
     (\<forall>c \<in> set pre. \<exists>w. map_of (scores r) c = Some w \<and> w \<le> v) \<and>
     (\<forall>c \<in> set post. \<exists>w. map_of (scores r) c = Some w \<and> w < v) \<and>
     confidence r = Some v \<and>
     category r = (if 0 < v then best else ''other'')"
  by (rule categorizeByRules_last_argmax)

text \<open>
  Claim C4 as stated fails on ties. For the title \<^verbatim>\<open>Lunch paper\<close> the categories
  \<^verbatim>\<open>meals\<close> (keyword \<^verbatim>\<open>lunch\<close>) and \<^verbatim>\<open>office_supplies\<close> (keyword \<^verbatim>\<open>paper\<close>) both score
  \<^verbatim>\<open>1/14\<close>, the greatest score; \<^verbatim>\<open>meals\<close> comes first in the enumeration, and the
  classifier returns \<^verbatim>\<open>office_supplies\<close>.
\<close>

theorem categorizeByRules_tie_counterexample:
  "categorizeByRules lunchPaper
   = Inr \<lparr> category = ''office_supplies'', confidence = Some (1 / 14), meth = ''rule-based'',
       scores = [(''meals'', 1 / 14), (''transportation'', 0), (''accommodation'', 0),
                 (''office_supplies'', 1 / 14), (''software'', 0), (''training'', 0),
                 (''marketing'', 0), (''travel'', 0)] \<rparr>
   \<and> category_of (categorizeByRules lunchPaper) \<noteq> Some ''meals''"
  by code_simp

text \<open>
  Claim C5, as the code has it. With the remote classifier unreachable, the rules score
  \<^verbatim>\<open>meals\<close> highest (\<^verbatim>\<open>lunch\<close> and \<^verbatim>\<open>restaurant\<close>: 2 of 14 keywords) and every other
  category \<^verbatim>\<open>0\<close>; the amount \<^verbatim>\<open>85.50\<close> falls in the bucket from 20 to 100 with the hint
  \<^verbatim>\<open>meals: 0.4\<close>; the blended score of \<^verbatim>\<open>meals\<close> is \<^verbatim>\<open>(1/7 + 2/5) / 2 = 19/70\<close>, the
  greatest; it does not exceed \<^verbatim>\<open>0.3\<close>, so the final category \<^verbatim>\<open>meals\<close> is the rule-based
  category taken by the fallback, and the confidence reported is \<^verbatim>\<open>19/70\<close>.
\<close>

theorem classify_team_lunch:
  "categorizeByRules teamLunch
     = Inr \<lparr> category = ''meals'', confidence = Some (1 / 7), meth = ''rule-based'',
         scores = [(''meals'', 1 / 7), (''transportation'', 0), (''accommodation'', 0),
                   (''office_supplies'', 0), (''software'', 0), (''training'', 0),
                   (''marketing'', 0), (''travel'', 0)] \<rparr>
   \<and> categorizeByAmount (171 / 2)
     = [(''meals'', 4 / 10), (''transportation'', 3 / 10), (''office_supplies'', 1 / 10)]
   \<and> classify None teamLunch
     = Inr \<lparr> finalCategory = ''meals'', finalConfidence = Some (19 / 70),
         outMethod = ''rule-based'',
         combinedScores = [(''meals'', 19 / 70), (''transportation'', 3 / 20),
                   (''accommodation'', 0), (''office_supplies'', 1 / 20), (''software'', 0),
                   (''training'', 0), (''marketing'', 0), (''travel'', 0)] \<rparr>
   \<and> \<not> jsGt (Some (19 / 70)) (Some (3 / 10))"
  by code_simp

theorem classify_team_lunch_witness:
  "confidence_of (classify None teamLunch) = Some (19 / 70)"
  using classify_team_lunch by (simp add: confidence_of_def)

text \<open>
  Claim C5 as stated fails: the confidence of the scenario is not greater than \<^verbatim>\<open>0.3\<close>.
\<close>

theorem classify_team_lunch_counterexample:
  "\<not> (case classify None teamLunch of
        Inl e \<Rightarrow> False
      | Inr out \<Rightarrow> finalCategory out = ''meals'' \<and> jsGt (finalConfidence out) (Some (3 / 10)))"
  by code_simp

section \<open>Properties of the receipt parser\<close>

lemma foldl_kvStep_total:
  "total (foldl (kvStep rd) p kvs)
   = (case lastSome (map kvAmount kvs) of Some a \<Rightarrow> Some a | None \<Rightarrow> total p)"
  by (induction kvs arbitrary: p) (auto simp: kvStep_def split: option.splits)

lemma foldl_kvStep_date:
  "date (foldl (kvStep rd) p kvs)
   = (case lastSome (map (kvDate rd) kvs) of Some d \<Rightarrow> Some d | None \<Rightarrow> date p)"
  by (induction kvs arbitrary: p) (auto simp: kvStep_def split: option.splits)

lemma foldl_kvStep_others:
  "amount (foldl (kvStep rd) p kvs) = amount p"
  "vendor (foldl (kvStep rd) p kvs) = vendor p"
  "items (foldl (kvStep rd) p kvs) = items p"
  by (induction kvs arbitrary: p) (auto simp: kvStep_def split: option.splits)

text \<open>
  Claim C9, as the code has it. For every extraction result and every date reader of the
  runtime: the number read from a key-value pair whose key contains \<^verbatim>\<open>total\<close> or
  \<^verbatim>\<open>amount\<close> goes to the field \<^verbatim>\<open>total\<close> (the last such pair whose value reads as a
  number decides, and \<^verbatim>\<open>total\<close> is null when there is none), while the field
  \<^verbatim>\<open>amount\<close> is the free-text match alone; a pair whose key contains \<^verbatim>\<open>date\<close> or
  \<^verbatim>\<open>time\<close> and whose value is a valid date overrides the pattern-matched date (the last
  such pair decides); the vendor is the first non-blank line, trimmed, or null; the
  items are the empty list. The parser is a total function of its string-typed input.
\<close>

theorem parseReceiptData_fields:
  "amount (parseReceiptData rd r) = firstAmount amountPatterns (fullText r)
   \<and> total (parseReceiptData rd r) = lastSome (map kvAmount (keyValuePairs r))
   \<and> date (parseReceiptData rd r)
       = (case lastSome (map (kvDate rd) (keyValuePairs r)) of
            Some d \<Rightarrow> Some d
          | None \<Rightarrow> firstDate rd datePatterns (fullText r))
   \<and> vendor (parseReceiptData rd r)
       = (case filter (\<lambda>line. trim line \<noteq> []) (splitOn newline (fullText r)) of
            [] \<Rightarrow> None
          | l # _ \<Rightarrow> Some (trim l))
   \<and> items (parseReceiptData rd r) = []"
  by (simp add: parseReceiptData_def Let_def foldl_kvStep_total foldl_kvStep_date
      foldl_kvStep_others split: option.splits)

theorem parseReceiptData_fields_witness:
  "amount (parseReceiptData Some cafeReceipt) = Some (617 / 50)
   \<and> total (parseReceiptData Some cafeReceipt) = Some 25"
proof -
  have "firstAmount amountPatterns (fullText cafeReceipt) = Some (617 / 50)"
    by code_simp
  moreover have "lastSome (map kvAmount (keyValuePairs cafeReceipt)) = Some 25"
    by code_simp
  ultimately show ?thesis
    using parseReceiptData_fields [of Some cafeReceipt] by simp
qed

text \<open>
  Claim C9 as stated fails on the amount. For the stub result of the repository, whose
  key-value map has the key \<^verbatim>\<open>amount\<close> with the value \<^verbatim>\<open>25.00\<close> and whose text matches
  no amount pattern, the returned \<^verbatim>\<open>amount\<close> is null: the number 25 is in \<^verbatim>\<open>total\<close>.
\<close>

theorem parseReceiptData_amount_counterexample:
  "parseReceiptData stubDates stubResult
   = \<lparr> vendor = Some ''SAMPLE RECEIPT TEXT - OCR PROCESSING SIMULATED'', amount = None,
       date = Some ''2025-01-20'', items = [], total = Some 25 \<rparr>
   \<and> amount (parseReceiptData stubDates stubResult) \<noteq> Some 25"
  by code_simp

section \<open>Properties of the lifecycle routes\<close>

lemma list_all2_map_same: "list_all2 P xs (map f xs) = (\<forall>x \<in> set xs. P x (f x))"
  by (induction xs) auto

lemma andThen_query:
  "andThen (query fault n stmt) f s =
     (case fault n of Some msg \<Rightarrow> (Inl (Error msg), s) | None \<Rightarrow> f (fst (stmt s)) (snd (stmt s)))"
  by (simp add: andThen_def query_def split: option.splits prod.splits)

lemma andThen_transaction:
  "andThen (transaction body) f s =
     (case body s of (Inl e, s') \<Rightarrow> (Inl e, s) | (Inr x, s') \<Rightarrow> f x s')"
  by (simp add: andThen_def transaction_def split: prod.splits sum.splits)

lemma stmt_simps:
  "fst (reading sel s) = sel s" "snd (reading sel s) = s"
  "snd (updateExpense i ch s) = s \<lparr> expenses := map (\<lambda>e. if exp_id e = i then ch e else e) (expenses s) \<rparr>"
  "snd (insertAudit en s) = s \<lparr> expense_audit_log := expense_audit_log s @ [en] \<rparr>"
  "snd (insertNotification n s) = s \<lparr> notifications := notifications s @ [n] \<rparr>"
  "snd (insertComment c s) = s \<lparr> expense_comments := expense_comments s @ [c] \<rparr>"
  by (simp_all add: reading_def updateExpense_def insertAudit_def insertNotification_def insertComment_def)

lemma submitExpense_guard_atomic:
  "case submitExpense fault rnd now reqUser expenseId s of
     (Inl err, s') \<Rightarrow>
        s' = s \<and>
        (\<forall>e. usr_role reqUser \<in> set (allowedRoles Submit) \<and> wellFormed Submit \<and> fault 0 = None \<and>
             foundExpense reqUser Submit expenseId s = Some e \<and> exp_status e \<noteq> sourceStatus Submit
           \<longrightarrow> err = AppError (guardMessage Submit) 400)
   | (Inr rep, s') \<Rightarrow>
        map_option exp_status (foundExpense reqUser Submit expenseId s) = Some (sourceStatus Submit) \<and>
        writtenTogether Submit expenseId s s'"
  unfolding submitExpense_def restrictTo_def
  by (auto simp: andThen_query andThen_transaction stmt_simps throw_def ret_def allowedRoles_def
      wellFormed_def foundExpense_def sourceStatus_def targetStatus_def guardMessage_def
      writtenTogether_def firstRow_def list_all2_map_same
      split: option.splits list.splits)

lemma approveExpense_guard_atomic:
  "case approveExpense fault now reqUser notes expenseId s of
     (Inl err, s') \<Rightarrow>
        s' = s \<and>
        (\<forall>e. usr_role reqUser \<in> set (allowedRoles (Approve notes)) \<and> wellFormed (Approve notes) \<and> fault 0 = None \<and>
             foundExpense reqUser (Approve notes) expenseId s = Some e \<and> exp_status e \<noteq> sourceStatus (Approve notes)
           \<longrightarrow> err = AppError (guardMessage (Approve notes)) 400)
   | (Inr rep, s') \<Rightarrow>
        map_option exp_status (foundExpense reqUser (Approve notes) expenseId s) = Some (sourceStatus (Approve notes)) \<and>
        writtenTogether (Approve notes) expenseId s s'"
  unfolding approveExpense_def restrictTo_def
  by (auto simp: andThen_query andThen_transaction stmt_simps throw_def ret_def allowedRoles_def
      wellFormed_def foundExpense_def sourceStatus_def targetStatus_def guardMessage_def
      writtenTogether_def firstRow_def list_all2_map_same
      split: option.splits list.splits)

lemma rejectExpense_guard_atomic:
  "case rejectExpense fault now reqUser reason expenseId s of
     (Inl err, s') \<Rightarrow>
        s' = s \<and>
        (\<forall>e. usr_role reqUser \<in> set (allowedRoles (Reject reason)) \<and> wellFormed (Reject reason) \<and> fault 0 = None \<and>
             foundExpense reqUser (Reject reason) expenseId s = Some e \<and> exp_status e \<noteq> sourceStatus (Reject reason)
           \<longrightarrow> err = AppError (guardMessage (Reject reason)) 400)
   | (Inr rep, s') \<Rightarrow>
        map_option exp_status (foundExpense reqUser (Reject reason) expenseId s) = Some (sourceStatus (Reject reason)) \<and>
        writtenTogether (Reject reason) expenseId s s'"
  unfolding rejectExpense_def restrictTo_def
  by (auto simp: andThen_query andThen_transaction stmt_simps throw_def ret_def allowedRoles_def
      wellFormed_def foundExpense_def sourceStatus_def targetStatus_def guardMessage_def
      writtenTogether_def firstRow_def list_all2_map_same
      split: option.splits list.splits)

lemma requestChanges_guard_atomic:
  "case requestChanges fault now reqUser message expenseId s of
     (Inl err, s') \<Rightarrow>
        s' = s \<and>
        (\<forall>e. usr_role reqUser \<in> set (allowedRoles (RequestChanges message)) \<and> wellFormed (RequestChanges message) \<and> fault 0 = None \<and>
             foundExpense reqUser (RequestChanges message) expenseId s = Some e \<and> exp_status e \<noteq> sourceStatus (RequestChanges message)
           \<longrightarrow> err = AppError (guardMessage (RequestChanges message)) 400)
   | (Inr rep, s') \<Rightarrow>
        map_option exp_status (foundExpense reqUser (RequestChanges message) expenseId s) = Some (sourceStatus (RequestChanges message)) \<and>
        writtenTogether (RequestChanges message) expenseId s s'"
  unfolding requestChanges_def restrictTo_def
  by (auto simp: andThen_query andThen_transaction stmt_simps throw_def ret_def allowedRoles_def
      wellFormed_def foundExpense_def sourceStatus_def targetStatus_def guardMessage_def
      writtenTogether_def firstRow_def list_all2_map_same
      split: option.splits list.splits)

lemma reimburseExpense_guard_atomic:
  "case reimburseExpense fault now reqUser notes expenseId s of
     (Inl err, s') \<Rightarrow>
        s' = s \<and>
        (\<forall>e. usr_role reqUser \<in> set (allowedRoles (Reimburse notes)) \<and> wellFormed (Reimburse notes) \<and> fault 0 = None \<and>
             foundExpense reqUser (Reimburse notes) expenseId s = Some e \<and> exp_status e \<noteq> sourceStatus (Reimburse notes)
           \<longrightarrow> err = AppError (guardMessage (Reimburse notes)) 400)
   | (Inr rep, s') \<Rightarrow>
        map_option exp_status (foundExpense reqUser (Reimburse notes) expenseId s) = Some (sourceStatus (Reimburse notes)) \<and>
        writtenTogether (Reimburse notes) expenseId s s'"
  unfolding reimburseExpense_def restrictTo_def
  by (auto simp: andThen_query andThen_transaction stmt_simps throw_def ret_def allowedRoles_def
      wellFormed_def foundExpense_def sourceStatus_def targetStatus_def guardMessage_def
      writtenTogether_def firstRow_def list_all2_map_same
      split: option.splits list.splits)


text \<open>
  Claim C1, as the code has it. Whatever makes a transition fail, the failure leaves the
  whole database as it was: the guards run before the first write, and the writes are in
  one transaction. When the caller has the role the route asks for, the reason or message
  is not blank, the first query meets no fault and finds the expense, and the status of
  the expense is not the source status of the transition, the failure is the
  \<^verbatim>\<open>AppError\<close> with status code 400 and the fixed message of the route. When the
  transition succeeds, the expense had the source status, and the status change, the audit
  entry and the notification (and the comment of a change request) are all written.
\<close>

theorem perform_guard_atomic:
  "case perform fault rnd now reqUser t expenseId s of
     (Inl err, s') \<Rightarrow>
        s' = s \<and>
        (\<forall>e. usr_role reqUser \<in> set (allowedRoles t) \<and> wellFormed t \<and> fault 0 = None \<and>
             foundExpense reqUser t expenseId s = Some e \<and> exp_status e \<noteq> sourceStatus t
           \<longrightarrow> err = AppError (guardMessage t) 400)
   | (Inr rep, s') \<Rightarrow>
        map_option exp_status (foundExpense reqUser t expenseId s) = Some (sourceStatus t) \<and>
        writtenTogether t expenseId s s'"
proof (cases t)
  case Submit
  show ?thesis unfolding perform_def Submit transition.case by (rule submitExpense_guard_atomic)
next
  case (Approve x)
  show ?thesis unfolding perform_def Approve transition.case by (rule approveExpense_guard_atomic)
next
  case (Reject x)
  show ?thesis unfolding perform_def Reject transition.case by (rule rejectExpense_guard_atomic)
next
  case (RequestChanges x)
  show ?thesis unfolding perform_def RequestChanges transition.case by (rule requestChanges_guard_atomic)
next
  case (Reimburse x)
  show ?thesis unfolding perform_def Reimburse transition.case by (rule reimburseExpense_guard_atomic)
qed

theorem perform_guard_atomic_witness:
  "perform noFault 0 200 bob (Approve None) 10 draftDb
     = (Inl (AppError (guardMessage (Approve None)) 400), draftDb)
   \<and> writtenTogether (Approve None) 10 pendingDb
       (snd (perform noFault 0 200 bob (Approve None) 10 pendingDb))"
proof -
  have "isl (fst (perform noFault 0 200 bob (Approve None) 10 draftDb))"
    by code_simp
  then obtain err s1 where p1: "perform noFault 0 200 bob (Approve None) 10 draftDb = (Inl err, s1)"
    by (cases "perform noFault 0 200 bob (Approve None) 10 draftDb") (auto simp: isl_def)
  have h: "usr_role bob \<in> set (allowedRoles (Approve None))" "wellFormed (Approve None)"
    "noFault 0 = None" "foundExpense bob (Approve None) 10 draftDb = Some lunchExpense"
    "exp_status lunchExpense \<noteq> sourceStatus (Approve None)"
    by code_simp+
  have 1: "s1 = draftDb \<and> err = AppError (guardMessage (Approve None)) 400"
    using perform_guard_atomic [where fault = noFault and rnd = 0 and now = 200 and reqUser = bob
        and t = "Approve None" and expenseId = 10 and s = draftDb] h
    unfolding p1 by simp
  have "\<not> isl (fst (perform noFault 0 200 bob (Approve None) 10 pendingDb))"
    by code_simp
  then obtain rep s2 where p2: "perform noFault 0 200 bob (Approve None) 10 pendingDb = (Inr rep, s2)"
    by (metis isl_def prod.collapse sum.exhaust_sel)
  have 2: "writtenTogether (Approve None) 10 pendingDb s2"
    using perform_guard_atomic [where fault = noFault and rnd = 0 and now = 200 and reqUser = bob
        and t = "Approve None" and expenseId = 10 and s = pendingDb]
    unfolding p2 by simp
  show ?thesis using 1 2 by (simp add: p1 p2)
qed

text \<open>
  Claim C1 as stated fails on the error. Approving a draft expense fails with the
  \<^verbatim>\<open>AppError\<close> of the route, whose message names the expected status and not the actual
  one, \<^verbatim>\<open>draft\<close>.
\<close>

theorem perform_error_counterexample:
  "perform noFault 0 200 bob (Approve None) 10 draftDb
     = (Inl (AppError ''Can only approve pending expenses'' 400), draftDb)
   \<and> str_includes ''Can only approve pending expenses'' (statusName pending)
   \<and> \<not> str_includes ''Can only approve pending expenses'' (statusName draft)"
  by code_simp

section \<open>Properties of the extraction queue\<close>

lemma andThen_liftE:
  "andThen (liftE r) f s = (case r of Inl e \<Rightarrow> (Inl e, s) | Inr x \<Rightarrow> f x s)"
  by (simp add: andThen_def liftE_def split: sum.splits)

lemma stmt_simps2:
  "snd (updateJobs i ch s)
     = s \<lparr> ocr_queue := map (\<lambda>j. if job_expense_id j = i then ch j else j) (ocr_queue s) \<rparr>"
  "snd (insertAuditForOwner i en s)
     = s \<lparr> expense_audit_log := expense_audit_log s
              @ map (\<lambda>e. en (exp_user_id e)) (filter (\<lambda>e. exp_id e = i) (expenses s)) \<rparr>"
  by (simp_all add: updateJobs_def insertAuditForOwner_def)

text \<open>
  Claim C2, as the code has it. When a step of an extraction run fails (a statement of
  the \<^verbatim>\<open>try\<close> block, a null receipt URL, or the extraction) and the two statements of
  the \<^verbatim>\<open>catch\<close> block meet no fault, the run marks the expense failed, marks every job
  of the expense failed with exactly one more attempt and the message of the error,
  appends nothing to the audit log, and throws the error again: the caller sees it.
\<close>

theorem processReceiptOCR_failure:
  assumes "fault 5 = None" "fault 6 = None" "stepFails fault prov receiptUrl"
  shows "\<exists>err s'. processReceiptOCR fault prov rd now expenseId receiptUrl s = (Inl err, s')
           \<and> failureRecorded expenseId err s s'"
  using assms
  unfolding processReceiptOCR_def ocrAttempt_def ocrFailed_def tryCatch_def stepFails_def
  by (auto simp: andThen_query andThen_liftE stmt_simps stmt_simps2 throw_def ret_def
      failureRecorded_def list_all2_map_same comp_def isl_def
      split: option.splits sum.splits)

theorem processReceiptOCR_failure_witness:
  "\<exists>err s'. processReceiptOCR noFault failingProvider stubDates 300 10 lunchReceipt draftDb
              = (Inl err, s')
           \<and> failureRecorded 10 err draftDb s'"
proof -
  have h: "noFault 5 = None" "noFault 6 = None" "stepFails noFault failingProvider lunchReceipt"
    by code_simp+
  show ?thesis by (rule processReceiptOCR_failure [OF h])
qed

text \<open>
  Claim C2 as stated fails twice. When the provider fails, the run ends with the error
  thrown to its caller, and the audit log has no new entry.
\<close>

theorem processReceiptOCR_rethrows_counterexample:
  "fst (processReceiptOCR noFault failingProvider stubDates 300 10 lunchReceipt draftDb)
     = Inl (Error ''Failed to extract text from receipt'')
   \<and> expense_audit_log
        (snd (processReceiptOCR noFault failingProvider stubDates 300 10 lunchReceipt draftDb))
     = expense_audit_log draftDb
   \<and> ocr_queue
        (snd (processReceiptOCR noFault failingProvider stubDates 300 10 lunchReceipt draftDb))
     = [lunchJob \<lparr> job_status := ocr_failed, job_attempts := 1,
          job_error_message := Some ''Failed to extract text from receipt'',
          job_processed_at := Some 300 \<rparr>]"
  by code_simp

lemma processReceiptOCR_preserves:
  "map job_expense_id (ocr_queue (snd (processReceiptOCR fault prov rd now e url s)))
     = map job_expense_id (ocr_queue s)"
  "map exp_id (expenses (snd (processReceiptOCR fault prov rd now e url s)))
     = map exp_id (expenses s)"
  unfolding processReceiptOCR_def ocrAttempt_def ocrFailed_def tryCatch_def
  by (auto simp: andThen_query andThen_liftE stmt_simps stmt_simps2 throw_def ret_def comp_def
      split: option.splits sum.splits)










lemmas sample_defs = queueDb_def draftDb_def lunchJob_def lunchExpense_def alice_def bob_def
  carol_def createdEntry_def failingRounds_def noFault_def failingProvider_def




section \<open>Properties of the other routes and of the categorizer's writes\<close>

lemma andThen_queryChecked:
  "andThen (queryChecked fault n stmt) f s =
     (case fault n of
        Some msg \<Rightarrow> (Inl (Error msg), s)
      | None \<Rightarrow> (case stmt s of Inl msg \<Rightarrow> (Inl (Error msg), s) | Inr (x, s') \<Rightarrow> f x s'))"
  by (simp add: andThen_def queryChecked_def split: option.splits sum.splits prod.splits)

lemma andThen_ret: "andThen (ret x) f s = f x s"
  by (simp add: andThen_def ret_def)

lemma andThen_Pair:
  "andThen (Pair (Inr x)) f s = f x s"
  "andThen (Pair (Inl e)) f s = (Inl e, s)"
  by (simp_all add: andThen_def)

lemma query_apply:
  "query fault n stmt s =
     (case fault n of Some msg \<Rightarrow> (Inl (Error msg), s) | None \<Rightarrow> (Inr (fst (stmt s)), snd (stmt s)))"
  by (simp add: query_def split: option.splits prod.splits)

lemma stmt_simps3:
  "snd (updateOwnExpense i u ch s)
     = s \<lparr> expenses := map (\<lambda>e. if exp_id e = i \<and> exp_user_id e = u then ch e else e) (expenses s) \<rparr>"
  "snd (insertExpense e s) = s \<lparr> expenses := expenses s @ [e] \<rparr>"
  "fst (insertExpense e s) = e"
  "snd (deleteWhere del s) = del s"
  by (simp_all add: updateOwnExpense_def insertExpense_def deleteWhere_def)

lemma andThen_postFeedback:
  "andThen (postFeedback failure req) f s =
     (case failure of
        Some msg \<Rightarrow> (Inl (Error msg), s \<lparr> feedback_requests := feedback_requests s @ [req] \<rparr>)
      | None \<Rightarrow> f () (s \<lparr> feedback_requests := feedback_requests s @ [req] \<rparr>))"
  by (simp add: andThen_def postFeedback_def split: option.splits)

text \<open>
  Claim C8. The feedback function never raises: whatever the database and the remote
  endpoint do, it returns normally. When the expense has no suggestion, or the corrected
  category is the suggestion, the call leaves the whole state as it was: no request is
  sent to the remote endpoint and no audit entry is written.
\<close>

theorem feedbackLearning_noop:
  "fst (feedbackLearning fault failure now expenseId c s) = Inr ()
   \<and> (firstRow (selectExpense expenseId s) = Some e
        \<and> (exp_ml_suggested_category e = None \<or> exp_ml_suggested_category e = Some c)
      \<longrightarrow> feedbackLearning fault failure now expenseId c s = (Inr (), s))"
  unfolding feedbackLearning_def tryCatch_def
  by (auto simp: andThen_query andThen_postFeedback stmt_simps stmt_simps2 throw_def ret_def
      firstRow_def nonEmptyStr_def
      split: option.splits list.splits)

theorem feedbackLearning_noop_witness:
  "feedbackLearning noFault None 300 10 ''meals'' suggestedDb = (Inr (), suggestedDb)"
proof -
  have h: "firstRow (selectExpense 10 suggestedDb)
             = Some (lunchExpense \<lparr> exp_ml_suggested_category := Some ''meals'',
                                   exp_ml_confidence := Some (19 / 70) \<rparr>)
           \<and> (exp_ml_suggested_category
                 (lunchExpense \<lparr> exp_ml_suggested_category := Some ''meals'',
                                 exp_ml_confidence := Some (19 / 70) \<rparr>) = None
              \<or> exp_ml_suggested_category
                 (lunchExpense \<lparr> exp_ml_suggested_category := Some ''meals'',
                                 exp_ml_confidence := Some (19 / 70) \<rparr>) = Some ''meals'')"
    by (simp add: suggestedDb_def sample_defs selectExpense_def firstRow_def)
  from feedbackLearning_noop [where fault = noFault and failure = None and now = 300
      and expenseId = 10 and c = "''meals''" and s = suggestedDb
      and e = "lunchExpense \<lparr> exp_ml_suggested_category := Some ''meals'',
                               exp_ml_confidence := Some (19 / 70) \<rparr>"] h
  show ?thesis by blast
qed

lemma updateExpenseRoute_with_file_fails:
  "isl (fst (updateExpenseRoute schemaSql fault now reqUser expenseId body (Uploaded url name) s))
   \<and> snd (updateExpenseRoute schemaSql fault now reqUser expenseId body (Uploaded url name) s) = s"
  unfolding updateExpenseRoute_def
  by (auto simp: andThen_query andThen_transaction andThen_queryChecked stmt_simps stmt_simps3
      throw_def ret_def upsertJob_def schemaSql_def Let_def
      split: option.splits list.splits)

lemma filter_singleton_of_distinct:
  "distinct (map f xs) \<Longrightarrow> k \<in> set (map f xs) \<Longrightarrow> \<exists>x. filter (\<lambda>j. f j = k) xs = [x]"
proof (induction xs)
  case Nil
  then show ?case by simp
next
  case (Cons a xs)
  show ?case
  proof (cases "f a = k")
    case True
    then have "k \<notin> f ` set xs" using Cons.prems(1) by auto
    then have "filter (\<lambda>j. f j = k) xs = []" by (auto simp: filter_empty_conv)
    then show ?thesis using True by simp
  next
    case False
    then show ?thesis using Cons by auto
  qed
qed

lemma upsert_replaces_with_unique_index:
  assumes u: "ocr_queue_unique_expense_id sch"
    and d: "distinct (map job_expense_id (ocr_queue s))"
    and ex: "expenseId \<in> set (map job_expense_id (ocr_queue s))"
    and ok: "updateExpenseRoute sch fault now reqUser expenseId body (Uploaded url name) s = (Inr rep, s')"
  shows "\<exists>j. filter (\<lambda>j. job_expense_id j = expenseId) (ocr_queue s') = [j]
           \<and> job_receipt_url j = url \<and> job_status j = ocr_pending \<and> job_attempts j = 0"
proof -
  define g :: "ocr_job \<Rightarrow> ocr_job" where "g = (\<lambda>j. if job_expense_id j = expenseId
                              then j \<lparr> job_receipt_url := url,
                                      job_status := ocr_pending, job_attempts := 0,
                                      job_created_at := now \<rparr>
                              else j)"
  have q: "ocr_queue s' = map g (ocr_queue s)"
    using ok u ex unfolding updateExpenseRoute_def g_def
    by (auto simp: andThen_query andThen_transaction andThen_queryChecked stmt_simps stmt_simps3
        throw_def ret_def upsertJob_def newJob_def Let_def
        split: option.splits list.splits if_splits)
  have gid: "job_expense_id (g j) = job_expense_id j" for j by (simp add: g_def)
  from filter_singleton_of_distinct [OF d ex] obtain x where
    x: "filter (\<lambda>j. job_expense_id j = expenseId) (ocr_queue s) = [x]" by blast
  then have "x \<in> set (filter (\<lambda>j. job_expense_id j = expenseId) (ocr_queue s))" by simp
  then have xid: "job_expense_id x = expenseId" by simp
  have "filter (\<lambda>j. job_expense_id j = expenseId) (ocr_queue s') = [g x]"
    unfolding q by (simp add: filter_map comp_def gid x)
  moreover have "job_receipt_url (g x) = url \<and> job_status (g x) = ocr_pending \<and> job_attempts (g x) = 0"
    using xid by (simp add: g_def)
  ultimately show ?thesis by blast
qed

text \<open>
  Claim C7 on the code. A second receipt for the sample expense, whose job has failed
  twice, is sent by its owner; with the table as \<^verbatim>\<open>schema.sql\<close> declares it the upsert is
  refused, the transaction is rolled back, and the job keeps the old receipt, the status
  \<^verbatim>\<open>failed\<close> and its two attempts. (With a unique index on \<^verbatim>\<open>expense_id\<close> the upsert
  does what the claim says: \<open>upsert_replaces_with_unique_index\<close>.)
\<close>

theorem updateExpenseRoute_upsert_refused:
  "updateExpenseRoute schemaSql noFault 400 alice 10 lunchBody secondReceipt retriedDb
     = (Inl (Error ''there is no unique or exclusion constraint matching the ON CONFLICT specification''),
        retriedDb)
   \<and> ocr_queue retriedDb
     = [lunchJob \<lparr> job_status := ocr_failed, job_attempts := 2,
          job_error_message := Some ''Failed to extract text from receipt'' \<rparr>]"
  by (simp add: updateExpenseRoute_def andThen_query andThen_transaction andThen_queryChecked
      stmt_simps stmt_simps3 throw_def ret_def upsertJob_def schemaSql_def Let_def sample_defs
      retriedDb_def secondReceipt_def selectOwnExpense_def)











lemma trainMLModel_keeps_state:
  "snd (trainMLModel fault trainerFailure now s) = s"
  unfolding trainMLModel_def
  by (auto simp: andThen_query andThen_liftE query_apply stmt_simps ret_def
      split: option.splits)





section \<open>One job for an expense\<close>

lemma route_keeps_queue:
  assumes "case r of (Inl err, s') \<Rightarrow> s' = s \<and> A err | (Inr rep, s') \<Rightarrow> B \<and> writtenTogether t i s s'"
  shows "ocr_queue (snd r) = ocr_queue s"
  using assms
  by (cases r; cases "fst r") (auto simp: writtenTogether_def)

lemma perform_keeps_queue:
  "ocr_queue (snd (perform fault rnd now reqUser t expenseId s)) = ocr_queue s"
proof (cases t)
  case Submit
  show ?thesis unfolding perform_def Submit transition.case
    by (rule route_keeps_queue [OF submitExpense_guard_atomic])
next
  case (Approve x)
  show ?thesis unfolding perform_def Approve transition.case
    by (rule route_keeps_queue [OF approveExpense_guard_atomic])
next
  case (Reject x)
  show ?thesis unfolding perform_def Reject transition.case
    by (rule route_keeps_queue [OF rejectExpense_guard_atomic])
next
  case (RequestChanges x)
  show ?thesis unfolding perform_def RequestChanges transition.case
    by (rule route_keeps_queue [OF requestChanges_guard_atomic])
next
  case (Reimburse x)
  show ?thesis unfolding perform_def Reimburse transition.case
    by (rule route_keeps_queue [OF reimburseExpense_guard_atomic])
qed

lemma createExpense_queue:
  "ocr_queue (snd (createExpense schemaSql fault newId now reqUser body file s)) = ocr_queue s
   \<or> (\<exists>url. ocr_queue (snd (createExpense schemaSql fault newId now reqUser body file s))
               = ocr_queue s @ [newJob newId url now])"
  unfolding createExpense_def
  by (auto simp: andThen_query andThen_transaction andThen_queryChecked andThen_ret andThen_Pair
      stmt_simps stmt_simps3 throw_def ret_def insertJob_def Let_def schemaSql_def
      split: option.splits list.splits upload.splits)

lemma updateExpenseRoute_keeps_queue:
  "ocr_queue (snd (updateExpenseRoute schemaSql fault now reqUser expenseId body file s)) = ocr_queue s"
  unfolding updateExpenseRoute_def
  by (auto simp: andThen_query andThen_transaction andThen_queryChecked andThen_ret andThen_Pair
      stmt_simps stmt_simps3 throw_def ret_def upsertJob_def Let_def schemaSql_def
      split: option.splits list.splits upload.splits)

lemma deleteExpense_queue:
  "ocr_queue (snd (deleteExpense fault reqUser expenseId s)) = ocr_queue s
   \<or> ocr_queue (snd (deleteExpense fault reqUser expenseId s))
       = filter (\<lambda>j. job_expense_id j \<noteq> expenseId) (ocr_queue s)"
  unfolding deleteExpense_def
  by (auto simp: andThen_query andThen_transaction query_apply stmt_simps stmt_simps3 throw_def
      ret_def split: option.splits list.splits)

lemma retryLoop_keeps_job_ids:
  "map job_expense_id (ocr_queue (snd (retryLoop envs rd now i jobs s)))
     = map job_expense_id (ocr_queue s)"
  by (induction jobs arbitrary: i s)
     (auto simp: Let_def processReceiptOCR_preserves(1) split: option.splits list.splits)

lemma categorizeMachine_keeps_queue:
  "ocr_queue (snd (categorizeMachine fault remote now e d s)) = ocr_queue s"
  unfolding categorizeMachine_def tryCatch_def
  by (auto simp: andThen_query andThen_liftE stmt_simps stmt_simps2 throw_def ret_def
      split: option.splits sum.splits)

lemma feedbackLearning_keeps_queue:
  "ocr_queue (snd (feedbackLearning fault failure now e c s)) = ocr_queue s"
  unfolding feedbackLearning_def tryCatch_def
  by (auto simp: andThen_query andThen_postFeedback stmt_simps stmt_simps2 throw_def ret_def
      split: option.splits list.splits)

text \<open>
  With the table as \<^verbatim>\<open>schema.sql\<close> declares it, every operation keeps the queue at one
  job for an expense at most, as long as a new expense gets an identifier no job has.
\<close>

lemma one_job_per_expense_invariant:
  assumes d: "distinct (map job_expense_id (ocr_queue s))"
    and fresh: "\<And>fault newId now reqUser body file.
        op = OpCreate fault newId now reqUser body file \<Longrightarrow>
        newId \<notin> set (map job_expense_id (ocr_queue s))"
  shows "distinct (map job_expense_id (ocr_queue (execute schemaSql rd op s)))"
proof (cases op)
  case (OpTransition f r n u t i)
  then show ?thesis using d by (simp add: execute_def perform_keeps_queue)
next
  case (OpCreate f newId n u b fl)
  from fresh [OF OpCreate] have nf: "newId \<notin> set (map job_expense_id (ocr_queue s))" .
  from createExpense_queue [of f newId n u b fl s] show ?thesis
    using d nf by (auto simp: OpCreate execute_def newJob_def)
next
  case (OpUpdate f n u i b fl)
  then show ?thesis using d by (simp add: execute_def updateExpenseRoute_keeps_queue)
next
  case (OpDelete f u i)
  from deleteExpense_queue [of f u i s] show ?thesis
    using d by (auto simp: OpDelete execute_def distinct_map_filter)
next
  case (OpProcessOCR f p n i url)
  then show ?thesis using d by (simp add: execute_def processReceiptOCR_preserves(1))
next
  case (OpRetry sf envs n)
  then show ?thesis using d
    by (cases sf) (simp_all add: execute_def retryOCRProcessing_def retryLoop_keeps_job_ids)
next
  case (OpClassify f r n i dta)
  then show ?thesis using d by (simp add: execute_def categorizeMachine_keeps_queue)
next
  case (OpFeedback f fl n i c)
  then show ?thesis using d by (simp add: execute_def feedbackLearning_keeps_queue)
next
  case (OpRetrain f tf n)
  then show ?thesis using d by (simp add: execute_def trainMLModel_keeps_state)
qed

end
